theory Spec2Isabelle
  imports Complex_Main "HOL-Library.Char_ord" "HOL-Library.List_Lexorder"
begin

section \<open>JavaScript values\<close>

text \<open>
  A JavaScript number is modelled as an exact rational or \<open>NaN\<close>. Binary rounding of
  doubles is not modelled; the infinities do not occur, since every division of the
  source is by a non-zero literal or by a length that was checked to be non-zero.
\<close>

datatype jsnum = Num rat | NaN

fun js_add :: "jsnum \<Rightarrow> jsnum \<Rightarrow> jsnum" where
  "js_add (Num a) (Num b) = Num (a + b)"
| "js_add _ _ = NaN"

fun js_sub :: "jsnum \<Rightarrow> jsnum \<Rightarrow> jsnum" where
  "js_sub (Num a) (Num b) = Num (a - b)"
| "js_sub _ _ = NaN"

fun js_mul :: "jsnum \<Rightarrow> jsnum \<Rightarrow> jsnum" where
  "js_mul (Num a) (Num b) = Num (a * b)"
| "js_mul _ _ = NaN"

text \<open>Division by a non-zero constant \<open>d\<close>.\<close>

fun js_div_by :: "jsnum \<Rightarrow> rat \<Rightarrow> jsnum" where
  "js_div_by (Num a) d = Num (a / d)"
| "js_div_by NaN d = NaN"

text \<open>\<open>Math.round\<close>: the nearest integer, a tie going up; \<open>NaN\<close> stays \<open>NaN\<close>.\<close>

fun Math_round :: "jsnum \<Rightarrow> jsnum" where
  "Math_round (Num a) = Num (of_int \<lfloor>a + 1 / 2\<rfloor>)"
| "Math_round NaN = NaN"

text \<open>The comparisons \<open><\<close> and \<open>>\<close>: false as soon as an operand is \<open>NaN\<close>.\<close>

fun js_lt :: "jsnum \<Rightarrow> jsnum \<Rightarrow> bool" where
  "js_lt (Num a) (Num b) = (a < b)"
| "js_lt _ _ = False"

fun js_gt :: "jsnum \<Rightarrow> jsnum \<Rightarrow> bool" where
  "js_gt (Num a) (Num b) = (a > b)"
| "js_gt _ _ = False"

fun in_0_5 :: "jsnum \<Rightarrow> bool" where
  "in_0_5 (Num a) = (0 \<le> a \<and> a \<le> 5)"
| "in_0_5 NaN = False"

text \<open>
  The result of reading a property of an object literal whose own properties are numbers:
  the own number, a member inherited from \<open>Object.prototype\<close> (a function, or the
  prototype object itself for \<open>__proto__\<close>), or \<open>undefined\<close>.
\<close>

datatype jsval = Number jsnum | PrototypeMember | Undefined

definition Object_prototype_keys :: "string list" where
  "Object_prototype_keys =
     [''constructor'', ''__defineGetter__'', ''__defineSetter__'', ''hasOwnProperty'',
      ''__lookupGetter__'', ''__lookupSetter__'', ''isPrototypeOf'',
      ''propertyIsEnumerable'', ''toString'', ''valueOf'', ''__proto__'',
      ''toLocaleString'']"

text \<open>\<open>obj[key]\<close> on an object literal: own properties first, then the prototype chain.\<close>

definition get_property :: "(string \<times> rat) list \<Rightarrow> string \<Rightarrow> jsval" where
  "get_property own key =
     (case map_of own key of
        Some v \<Rightarrow> Number (Num v)
      | None \<Rightarrow> if key \<in> set Object_prototype_keys then PrototypeMember else Undefined)"

text \<open>\<open>v ?? d\<close>: the default only when \<open>v\<close> is \<open>undefined\<close> (or \<open>null\<close>).\<close>

fun nullish :: "jsval \<Rightarrow> jsval \<Rightarrow> jsval" where
  "nullish Undefined d = d"
| "nullish v d = v"

text \<open>
  \<open>ToNumber\<close>, as applied by \<open>*\<close> and \<open>/\<close>: a function or a plain object converts
  through its string form, which is not numeric.
\<close>

fun ToNumber :: "jsval \<Rightarrow> jsnum" where
  "ToNumber (Number n) = n"
| "ToNumber PrototypeMember = NaN"
| "ToNumber Undefined = NaN"

text \<open>Truthiness of a string that may be \<open>undefined\<close>: defined and not empty.\<close>

fun truthy :: "string option \<Rightarrow> bool" where
  "truthy None = False"
| "truthy (Some s) = (s \<noteq> [])"

text \<open>\<open>s.split(c)\<close> and \<open>s.trim()\<close> (ASCII white space).\<close>

fun split_on :: "char \<Rightarrow> string \<Rightarrow> string list" where
  "split_on c [] = [[]]"
| "split_on c (x # xs) =
     (if x = c then [] # split_on c xs
      else (case split_on c xs of
              w # ws \<Rightarrow> (x # w) # ws
            | [] \<Rightarrow> [[x]]))"

definition is_space :: "char \<Rightarrow> bool" where
  "is_space ch = (ch \<in> set [CHR '' '', CHR 0x09, CHR 0x0A, CHR 0x0B, CHR 0x0C, CHR 0x0D])"

definition trim :: "string \<Rightarrow> string" where
  "trim s = rev (dropWhile is_space (rev (dropWhile is_space s)))"

text \<open>
  Writing a value under a key, as \<open>Map.set\<close> and the store's index-by-id do: an existing
  key keeps its place and gets the new value, a new key goes to the end.
\<close>

fun upsert :: "string \<Rightarrow> 'a \<Rightarrow> (string \<times> 'a) list \<Rightarrow> (string \<times> 'a) list" where
  "upsert k v [] = [(k, v)]"
| "upsert k v ((k', v') # kvs) = (if k' = k then (k, v) # kvs else (k', v') # upsert k v kvs)"

text \<open>Truthiness of a flag that may be \<open>undefined\<close>.\<close>

fun truthy_flag :: "bool option \<Rightarrow> bool" where
  "truthy_flag None = False"
| "truthy_flag (Some f) = f"


section \<open>The taxonomy parser\<close>

subsection \<open>The fixed tactic catalog\<close>

record MitreTactic =
  id' :: string
  name :: string
  shortName :: string
  description :: string
  externalId :: string
  url :: string

definition MITRE_TACTICS_ORDER :: "MitreTactic list" where
  "MITRE_TACTICS_ORDER =
     [
      \<lparr>id' = ''x-mitre-tactic--daa4cbb1-b4f4-4723-a824-7f1efd6e0592'',
       name = ''Reconnaissance'',
       shortName = ''reconnaissance'',
       description =
         ''The adversary is trying to gather information they can use to plan future operations.'',
       externalId = ''TA0043'',
       url = ''https://attack.mitre.org/tactics/TA0043''\<rparr>,
      \<lparr>id' = ''x-mitre-tactic--d679bca2-e57d-4935-8650-8031c87a4400'',
       name = ''Resource Development'',
       shortName = ''resource-development'',
       description =
         ''The adversary is trying to establish resources they can use to support operations.'',
       externalId = ''TA0042'',
       url = ''https://attack.mitre.org/tactics/TA0042''\<rparr>,
      \<lparr>id' = ''x-mitre-tactic--ffd5bcee-6e16-4dd2-8eca-7b3beedf33ca'',
       name = ''Initial Access'',
       shortName = ''initial-access'',
       description =
         ''The adversary is trying to get into your network.'',
       externalId = ''TA0001'',
       url = ''https://attack.mitre.org/tactics/TA0001''\<rparr>,
      \<lparr>id' = ''x-mitre-tactic--4ca45d45-df4d-4613-8980-bac22d278fa5'',
       name = ''Execution'',
       shortName = ''execution'',
       description =
         ''The adversary is trying to run malicious code.'',
       externalId = ''TA0002'',
       url = ''https://attack.mitre.org/tactics/TA0002''\<rparr>,
      \<lparr>id' = ''x-mitre-tactic--5bc1d813-693e-4823-9961-abf9af4b0e92'',
       name = ''Persistence'',
       shortName = ''persistence'',
       description =
         ''The adversary is trying to maintain their foothold.'',
       externalId = ''TA0003'',
       url = ''https://attack.mitre.org/tactics/TA0003''\<rparr>,
      \<lparr>id' = ''x-mitre-tactic--5e29b093-294e-49e9-a803-dab3d73b77dd'',
       name = ''Privilege Escalation'',
       shortName = ''privilege-escalation'',
       description =
         ''The adversary is trying to gain higher-level permissions.'',
       externalId = ''TA0004'',
       url = ''https://attack.mitre.org/tactics/TA0004''\<rparr>,
      \<lparr>id' = ''x-mitre-tactic--78b23412-0651-46d7-a540-170a1ce8bd5a'',
       name = ''Defense Evasion'',
       shortName = ''defense-evasion'',
       description =
         ''The adversary is trying to avoid being detected.'',
       externalId = ''TA0005'',
       url = ''https://attack.mitre.org/tactics/TA0005''\<rparr>,
      \<lparr>id' = ''x-mitre-tactic--2558fd61-8c75-4730-94c4-11926db2a263'',
       name = ''Credential Access'',
       shortName = ''credential-access'',
       description =
         ''The adversary is trying to steal account names and passwords.'',
       externalId = ''TA0006'',
       url = ''https://attack.mitre.org/tactics/TA0006''\<rparr>,
      \<lparr>id' = ''x-mitre-tactic--c17c5845-175e-4421-9713-829d0573dbc9'',
       name = ''Discovery'',
       shortName = ''discovery'',
       description =
         ''The adversary is trying to figure out your environment.'',
       externalId = ''TA0007'',
       url = ''https://attack.mitre.org/tactics/TA0007''\<rparr>,
      \<lparr>id' = ''x-mitre-tactic--7141578b-e50b-4dcc-bfa4-08a8dd689e9e'',
       name = ''Lateral Movement'',
       shortName = ''lateral-movement'',
       description =
         ''The adversary is trying to move through your environment.'',
       externalId = ''TA0008'',
       url = ''https://attack.mitre.org/tactics/TA0008''\<rparr>,
      \<lparr>id' = ''x-mitre-tactic--d108ce10-2419-4cf9-a774-46161d6c6cfe'',
       name = ''Collection'',
       shortName = ''collection'',
       description =
         ''The adversary is trying to gather data of interest to their goal.'',
       externalId = ''TA0009'',
       url = ''https://attack.mitre.org/tactics/TA0009''\<rparr>,
      \<lparr>id' = ''x-mitre-tactic--f72804c5-f15a-449e-a5da-2eecd181f813'',
       name = ''Command and Control'',
       shortName = ''command-and-control'',
       description =
         ''The adversary is trying to communicate with compromised systems to control them.'',
       externalId = ''TA0011'',
       url = ''https://attack.mitre.org/tactics/TA0011''\<rparr>,
      \<lparr>id' = ''x-mitre-tactic--9a4e74ab-5008-408c-84bf-a10dfbc53462'',
       name = ''Exfiltration'',
       shortName = ''exfiltration'',
       description =
         ''The adversary is trying to steal data.'',
       externalId = ''TA0010'',
       url = ''https://attack.mitre.org/tactics/TA0010''\<rparr>,
      \<lparr>id' = ''x-mitre-tactic--5569339b-94c2-49ee-afb3-2222936582c8'',
       name = ''Impact'',
       shortName = ''impact'',
       description =
         ''The adversary is trying to manipulate, interrupt, or destroy your systems and data.'',
       externalId = ''TA0040'',
       url = ''https://attack.mitre.org/tactics/TA0040''\<rparr>]"

subsection \<open>The taxonomy\<close>

record MitreAnalytic =
  id' :: string
  name :: string
  externalId :: string
  platforms :: "string list"

record MitreDetectionStrategy =
  id' :: string
  name :: string
  externalId :: string
  url :: string
  analytics :: "MitreAnalytic list"

datatype MitreTechnique = MitreTechnique
  (id': string) (name: string) (externalId: string) (url: string) (description: string)
  (tacticShortNames: "string list") (isSubtechnique: bool)
  (parentTechniqueId: "string option")
  (subtechniques: "MitreTechnique list option")
  (detectionStrategies: "MitreDetectionStrategy list option")

record TacticWithTechniques =
  tactic' :: MitreTactic
  techniques :: "MitreTechnique list"

record MitreMatrixData =
  tactics :: "TacticWithTechniques list"
  availablePlatforms :: "string list"

subsection \<open>The objects of the ingested bundle\<close>

record StixExternalReference =
  source_name :: string
  external_id :: "string option"
  url :: "string option"

record StixKillChainPhase =
  kill_chain_name :: string
  phase_name :: string

record StixAttackPattern =
  type :: string
  id' :: string
  name :: string
  description :: string
  external_references :: "StixExternalReference list"
  kill_chain_phases :: "StixKillChainPhase list option"
  x_mitre_is_subtechnique :: "bool option"
  x_mitre_deprecated :: "bool option"
  revoked :: "bool option"

record StixDetectionStrategy =
  type :: string
  id' :: string
  name :: string
  external_references :: "StixExternalReference list"
  x_mitre_analytic_refs :: "string list option"
  x_mitre_deprecated :: "bool option"

record StixAnalytic =
  type :: string
  id' :: string
  name :: string
  external_references :: "StixExternalReference list"
  x_mitre_platforms :: "string list option"
  x_mitre_deprecated :: "bool option"

record StixRelationship =
  type :: string
  id' :: string
  relationship_type :: string
  source_ref :: string
  target_ref :: string
  x_mitre_deprecated :: "bool option"

record StixObject =
  type :: string
  id' :: string
  name :: "string option"
  description :: "string option"
  external_references :: "StixExternalReference list option"
  kill_chain_phases :: "StixKillChainPhase list option"
  x_mitre_is_subtechnique :: "bool option"
  x_mitre_deprecated :: "bool option"
  revoked :: "bool option"
  x_mitre_analytic_refs :: "string list option"
  x_mitre_platforms :: "string list option"
  relationship_type :: "string option"
  source_ref :: "string option"
  target_ref :: "string option"

record StixBundle =
  objects :: "StixObject list"

text \<open>\<open>s || ''\<close> for a string that may be \<open>undefined\<close>, and \<open>xs || []\<close> for a list.\<close>

fun or_empty :: "'a list option \<Rightarrow> 'a list" where
  "or_empty None = []"
| "or_empty (Some s) = s"

subsection \<open>Extraction\<close>

definition extractAttackPatterns :: "StixBundle \<Rightarrow> StixAttackPattern list" where
  "extractAttackPatterns stixData =
     map (\<lambda>obj.
            \<lparr>StixAttackPattern.type = ''attack-pattern'',
             StixAttackPattern.id' = StixObject.id' obj,
             StixAttackPattern.name = or_empty (StixObject.name obj),
             StixAttackPattern.description = or_empty (StixObject.description obj),
             StixAttackPattern.external_references = or_empty (StixObject.external_references obj),
             StixAttackPattern.kill_chain_phases = StixObject.kill_chain_phases obj,
             StixAttackPattern.x_mitre_is_subtechnique = StixObject.x_mitre_is_subtechnique obj,
             StixAttackPattern.x_mitre_deprecated = StixObject.x_mitre_deprecated obj,
             StixAttackPattern.revoked = StixObject.revoked obj\<rparr>)
       (filter (\<lambda>obj.
                  StixObject.type obj = ''attack-pattern'' \<and>
                  \<not> truthy_flag (StixObject.x_mitre_deprecated obj) \<and>
                  \<not> truthy_flag (StixObject.revoked obj) \<and>
                  truthy (StixObject.name obj) \<and>
                  StixObject.external_references obj \<noteq> None)
          (objects stixData))"

text \<open>
  The loops that fill a \<open>Map\<close> keyed by object id: a later object with the id of an
  earlier one replaces it.
\<close>

definition extractDetectionStrategies :: "StixBundle \<Rightarrow> (string \<times> StixDetectionStrategy) list" where
  "extractDetectionStrategies stixData =
     foldl (\<lambda>strategies obj.
              if StixObject.type obj = ''x-mitre-detection-strategy'' \<and>
                 \<not> truthy_flag (StixObject.x_mitre_deprecated obj) \<and>
                 truthy (StixObject.name obj) \<and>
                 StixObject.external_references obj \<noteq> None
              then upsert (StixObject.id' obj)
                     \<lparr>StixDetectionStrategy.type = ''x-mitre-detection-strategy'',
                      StixDetectionStrategy.id' = StixObject.id' obj,
                      StixDetectionStrategy.name = or_empty (StixObject.name obj),
                      StixDetectionStrategy.external_references =
                        or_empty (StixObject.external_references obj),
                      StixDetectionStrategy.x_mitre_analytic_refs =
                        StixObject.x_mitre_analytic_refs obj,
                      StixDetectionStrategy.x_mitre_deprecated =
                        StixObject.x_mitre_deprecated obj\<rparr>
                     strategies
              else strategies)
       [] (objects stixData)"

definition extractAnalytics :: "StixBundle \<Rightarrow> (string \<times> StixAnalytic) list" where
  "extractAnalytics stixData =
     foldl (\<lambda>analyticsMap obj.
              if StixObject.type obj = ''x-mitre-analytic'' \<and>
                 \<not> truthy_flag (StixObject.x_mitre_deprecated obj) \<and>
                 truthy (StixObject.name obj) \<and>
                 StixObject.external_references obj \<noteq> None
              then upsert (StixObject.id' obj)
                     \<lparr>StixAnalytic.type = ''x-mitre-analytic'',
                      StixAnalytic.id' = StixObject.id' obj,
                      StixAnalytic.name = or_empty (StixObject.name obj),
                      StixAnalytic.external_references =
                        or_empty (StixObject.external_references obj),
                      StixAnalytic.x_mitre_platforms = StixObject.x_mitre_platforms obj,
                      StixAnalytic.x_mitre_deprecated = StixObject.x_mitre_deprecated obj\<rparr>
                     analyticsMap
              else analyticsMap)
       [] (objects stixData)"

definition extractDetectsRelationships :: "StixBundle \<Rightarrow> StixRelationship list" where
  "extractDetectsRelationships stixData =
     map (\<lambda>obj.
            \<lparr>StixRelationship.type = ''relationship'',
             StixRelationship.id' = StixObject.id' obj,
             StixRelationship.relationship_type = or_empty (StixObject.relationship_type obj),
             StixRelationship.source_ref = or_empty (StixObject.source_ref obj),
             StixRelationship.target_ref = or_empty (StixObject.target_ref obj),
             StixRelationship.x_mitre_deprecated = StixObject.x_mitre_deprecated obj\<rparr>)
       (filter (\<lambda>obj.
                  StixObject.type obj = ''relationship'' \<and>
                  StixObject.relationship_type obj = Some ''detects'' \<and>
                  \<not> truthy_flag (StixObject.x_mitre_deprecated obj) \<and>
                  truthy (StixObject.source_ref obj) \<and>
                  truthy (StixObject.target_ref obj))
          (objects stixData))"

subsection \<open>Techniques\<close>

text \<open>The reference entry of the canonical registry: the first one that names an id.\<close>

definition mitre_ref :: "StixExternalReference list \<Rightarrow> StixExternalReference option" where
  "mitre_ref refs =
     List.find (\<lambda>r. source_name r = ''mitre-attack'' \<and> truthy (external_id r)) refs"

definition ref_external_id :: "StixExternalReference option \<Rightarrow> string" where
  "ref_external_id r = (case r of None \<Rightarrow> [] | Some x \<Rightarrow> or_empty (external_id x))"

definition ref_url :: "StixExternalReference option \<Rightarrow> string" where
  "ref_url r = (case r of None \<Rightarrow> [] | Some x \<Rightarrow> or_empty (StixExternalReference.url x))"

text \<open>\<open>s.replace(c, d)\<close> with a string pattern: the first occurrence only.\<close>

fun replace_first :: "char \<Rightarrow> char \<Rightarrow> string \<Rightarrow> string" where
  "replace_first c d [] = []"
| "replace_first c d (x # xs) = (if x = c then d # xs else x # replace_first c d xs)"

definition convertToTechniques :: "StixAttackPattern list \<Rightarrow> MitreTechnique list" where
  "convertToTechniques attackPatterns =
     map (\<lambda>pattern.
            let mitreRef = mitre_ref (StixAttackPattern.external_references pattern);
                externalId = ref_external_id mitreRef;
                isSubtechnique = (StixAttackPattern.x_mitre_is_subtechnique pattern = Some True);
                parentTechniqueId =
                  (if isSubtechnique \<and> CHR ''.'' \<in> set externalId
                   then (case split_on CHR ''.'' externalId of
                           [] \<Rightarrow> None | first # others \<Rightarrow> Some first)
                   else None);
                tacticShortNames =
                  map phase_name
                    (filter (\<lambda>phase. kill_chain_name phase = ''mitre-attack'')
                       (or_empty (StixAttackPattern.kill_chain_phases pattern)))
            in MitreTechnique
                 (StixAttackPattern.id' pattern)
                 (StixAttackPattern.name pattern)
                 externalId
                 (if ref_url mitreRef \<noteq> [] then ref_url mitreRef
                  else ''https://attack.mitre.org/techniques/'' @
                       replace_first CHR ''.'' CHR ''/'' externalId)
                 (StixAttackPattern.description pattern)
                 tacticShortNames isSubtechnique parentTechniqueId None None)
       attackPatterns"

subsection \<open>Linking detection strategies\<close>

text \<open>
  The source keeps the techniques by reference in a map by id and appends to the
  \<open>detectionStrategies\<close> of the technique found. Here the technique is changed in
  place in the list; of several techniques with one id the map holds the last.
\<close>

fun update_first :: "('a \<Rightarrow> bool) \<Rightarrow> ('a \<Rightarrow> 'a) \<Rightarrow> 'a list \<Rightarrow> 'a list" where
  "update_first P f [] = []"
| "update_first P f (x # xs) = (if P x then f x # xs else x # update_first P f xs)"

definition update_last :: "('a \<Rightarrow> bool) \<Rightarrow> ('a \<Rightarrow> 'a) \<Rightarrow> 'a list \<Rightarrow> 'a list" where
  "update_last P f xs = rev (update_first P f (rev xs))"

definition push_detection_strategy :: "MitreDetectionStrategy \<Rightarrow> MitreTechnique \<Rightarrow> MitreTechnique" where
  "push_detection_strategy ds t =
     (case t of MitreTechnique i n e u d ts sub par subs dss \<Rightarrow>
        MitreTechnique i n e u d ts sub par subs (Some (or_empty dss @ [ds])))"

definition analyticsForStrategy ::
  "(string \<times> StixAnalytic) list \<Rightarrow> StixDetectionStrategy \<Rightarrow> MitreAnalytic list" where
  "analyticsForStrategy analyticsMap strategy =
     concat
       (map (\<lambda>analyticRef.
               case map_of analyticsMap analyticRef of
                 None \<Rightarrow> []
               | Some analytic \<Rightarrow>
                   [\<lparr>MitreAnalytic.id' = StixAnalytic.id' analytic,
                     MitreAnalytic.name = StixAnalytic.name analytic,
                     MitreAnalytic.externalId =
                       ref_external_id (mitre_ref (StixAnalytic.external_references analytic)),
                     platforms = or_empty (StixAnalytic.x_mitre_platforms analytic)\<rparr>])
          (or_empty (StixDetectionStrategy.x_mitre_analytic_refs strategy)))"

definition linkDetectionStrategiesToTechniques ::
  "MitreTechnique list \<Rightarrow> (string \<times> StixDetectionStrategy) list \<Rightarrow>
   (string \<times> StixAnalytic) list \<Rightarrow> StixRelationship list \<Rightarrow> MitreTechnique list" where
  "linkDetectionStrategiesToTechniques techniques0 detectionStrategies0 analyticsMap
       detectsRelationships =
     foldl (\<lambda>ts relationship.
              case map_of detectionStrategies0 (StixRelationship.source_ref relationship) of
                None \<Rightarrow> ts
              | Some strategy \<Rightarrow>
                  (let mitreRef = mitre_ref (StixDetectionStrategy.external_references strategy) in
                   update_last
                     (\<lambda>t. MitreTechnique.id' t = StixRelationship.target_ref relationship)
                     (push_detection_strategy
                        \<lparr>MitreDetectionStrategy.id' = StixDetectionStrategy.id' strategy,
                         MitreDetectionStrategy.name = StixDetectionStrategy.name strategy,
                         MitreDetectionStrategy.externalId = ref_external_id mitreRef,
                         MitreDetectionStrategy.url = ref_url mitreRef,
                         analytics = analyticsForStrategy analyticsMap strategy\<rparr>)
                     ts))
       techniques0 detectsRelationships"

subsection \<open>Platforms and the matrix\<close>

text \<open>
  The default \<open>sort()\<close> orders strings by code unit; the order of \<open>localeCompare\<close> is
  given by the environment. \<open>sort\<close> with a comparator is stable.
\<close>

definition collectAvailablePlatforms :: "(string \<times> StixAnalytic) list \<Rightarrow> string list" where
  "collectAvailablePlatforms analyticsMap =
     sort (remdups (concat (map (\<lambda>kv. or_empty (StixAnalytic.x_mitre_platforms (snd kv)))
                              analyticsMap)))"

fun insert_by :: "('a \<Rightarrow> 'a \<Rightarrow> bool) \<Rightarrow> 'a \<Rightarrow> 'a list \<Rightarrow> 'a list" where
  "insert_by le x [] = [x]"
| "insert_by le x (y # ys) = (if le x y then x # y # ys else y # insert_by le x ys)"

definition sort_by :: "('a \<Rightarrow> 'a \<Rightarrow> bool) \<Rightarrow> 'a list \<Rightarrow> 'a list" where
  "sort_by le xs = foldr (insert_by le) xs []"

definition set_subtechniques :: "MitreTechnique list \<Rightarrow> MitreTechnique \<Rightarrow> MitreTechnique" where
  "set_subtechniques subs t =
     (case t of MitreTechnique i n e u d ts sub par old dss \<Rightarrow>
        MitreTechnique i n e u d ts sub par (Some subs) dss)"

definition buildMatrix ::
  "(string \<Rightarrow> string \<Rightarrow> bool) \<Rightarrow> MitreTechnique list \<Rightarrow> string list \<Rightarrow> MitreMatrixData" where
  "buildMatrix localeCompare_le techniques0 platforms0 =
     (let by_name = (\<lambda>a b. localeCompare_le (MitreTechnique.name a) (MitreTechnique.name b));
          parentTechniques = filter (\<lambda>t. \<not> isSubtechnique t) techniques0;
          subtechniques0 = filter isSubtechnique techniques0;
          techniqueMap =
            foldl (\<lambda>m technique.
                     upsert (MitreTechnique.externalId technique)
                       (set_subtechniques [] technique) m)
              [] parentTechniques;
          withSubs =
            foldl (\<lambda>m subtechnique.
                     case parentTechniqueId subtechnique of
                       None \<Rightarrow> m
                     | Some parentId \<Rightarrow>
                         if parentId = [] then m
                         else map (\<lambda>kv. if fst kv = parentId
                                         then (fst kv,
                                               set_subtechniques
                                                 (or_empty (subtechniques (snd kv)) @ [subtechnique])
                                                 (snd kv))
                                         else kv) m)
              techniqueMap subtechniques0;
          sorted =
            map (\<lambda>kv. set_subtechniques (sort_by by_name (or_empty (subtechniques (snd kv))))
                         (snd kv)) withSubs
      in \<lparr>tactics =
            map (\<lambda>tactic0.
                   \<lparr>tactic' = tactic0,
                    techniques =
                      sort_by by_name
                        (filter (\<lambda>technique.
                                   shortName tactic0 \<in> set (tacticShortNames technique))
                           sorted)\<rparr>)
              MITRE_TACTICS_ORDER,
          availablePlatforms = platforms0\<rparr>)"

definition getEmptyTactics :: "TacticWithTechniques list" where
  "getEmptyTactics = map (\<lambda>tactic0. \<lparr>tactic' = tactic0, techniques = []\<rparr>) MITRE_TACTICS_ORDER"

subsection \<open>Loading and parsing\<close>

text \<open>
  The local file is missing, cannot be read, or has a content. \<open>JSON.parse\<close> is given
  by the environment: it raises (\<open>None\<close>) or yields a value, which is falsy (\<open>null\<close>,
  \<open>0\<close>, \<open>false\<close>, the empty string), or a bundle with its objects, or some other value,
  on which reading \<open>objects\<close> yields \<open>undefined\<close>.
\<close>

datatype file_state = Missing | Unreadable | Content string

datatype json_value = Falsy | NotABundle | Bundle StixBundle

datatype parse_error = TypeError

record parser_env =
  local_file :: file_state
  JSON_parse :: "string \<Rightarrow> json_value option"
  localeCompare_le :: "string \<Rightarrow> string \<Rightarrow> bool"

text \<open>\<open>loadStixData\<close>: \<open>null\<close> (\<open>None\<close>) when the file is missing or an error was caught.\<close>

definition loadStixData :: "parser_env \<Rightarrow> json_value option" where
  "loadStixData pe =
     (case local_file pe of
        Missing \<Rightarrow> None
      | Unreadable \<Rightarrow> None
      | Content rawData \<Rightarrow> JSON_parse pe rawData)"

definition parseMatrix :: "parser_env \<Rightarrow> parse_error + MitreMatrixData" where
  "parseMatrix pe =
     (case loadStixData pe of
        None \<Rightarrow> Inr \<lparr>tactics = getEmptyTactics, availablePlatforms = []\<rparr>
      | Some Falsy \<Rightarrow> Inr \<lparr>tactics = getEmptyTactics, availablePlatforms = []\<rparr>
      | Some NotABundle \<Rightarrow> Inl TypeError
      | Some (Bundle stixData) \<Rightarrow>
          (let attackPatterns = extractAttackPatterns stixData;
               detectionStrategies0 = extractDetectionStrategies stixData;
               analyticsMap = extractAnalytics stixData;
               detectsRelationships = extractDetectsRelationships stixData;
               techniques0 = convertToTechniques attackPatterns;
               linked = linkDetectionStrategiesToTechniques techniques0 detectionStrategies0
                          analyticsMap detectsRelationships;
               platforms0 = collectAvailablePlatforms analyticsMap
           in Inr (buildMatrix (localeCompare_le pe) linked platforms0)))"


section \<open>Reference definitions for the parser properties\<close>

text \<open>What the specification asks of an object that is kept.\<close>

definition identified :: "StixObject \<Rightarrow> bool" where
  "identified obj \<longleftrightarrow>
     truthy (StixObject.name obj) \<and> StixObject.external_references obj \<noteq> None"

definition not_withdrawn :: "StixObject \<Rightarrow> bool" where
  "not_withdrawn obj \<longleftrightarrow>
     \<not> truthy_flag (StixObject.x_mitre_deprecated obj) \<and> \<not> truthy_flag (StixObject.revoked obj)"

text \<open>An object of a given type and id, named, with references, revoked but not deprecated.\<close>

definition revoked_object :: "string \<Rightarrow> string \<Rightarrow> StixObject" where
  "revoked_object ty i =
     \<lparr>StixObject.type = ty, StixObject.id' = i, StixObject.name = Some ''Withdrawn'',
      StixObject.description = None,
      StixObject.external_references =
        Some [\<lparr>source_name = ''mitre-attack'', external_id = Some ''X0001'',
               StixExternalReference.url = None\<rparr>],
      StixObject.kill_chain_phases = None, StixObject.x_mitre_is_subtechnique = None,
      StixObject.x_mitre_deprecated = Some False, StixObject.revoked = Some True,
      StixObject.x_mitre_analytic_refs = None, StixObject.x_mitre_platforms = None,
      StixObject.relationship_type = None, StixObject.source_ref = None,
      StixObject.target_ref = None\<rparr>"



section \<open>The data model of the scoring service\<close>

record EcsMapping =
  name_field :: string
  name_value :: string
  channel_field :: string
  channel_value :: string

record Mapping =
  ecs :: EcsMapping
  status :: string
  confidence :: string
  notes' :: string
  verified :: bool

record LogSourceReference =
  x_mitre_data_component_ref :: string
  data_component_name :: string
  name :: string
  channel :: string
  mapping :: Mapping

record AnalyticDocument =
  id' :: string
  name :: string
  x_mitre_log_source_references :: "LogSourceReference list"

record DataFieldCompletenessDetails =
  base_score :: jsnum
  status_multiplier :: jsval
  confidence_multiplier :: jsval
  reason :: string

record TimelinessDetails =
  last_doc_timestamp :: "string option"
  last_doc_ingested :: "string option"
  delta_seconds :: "jsnum option"
  t_reason :: string

record DeviceCompletenessDetails =
  coverage_percent :: jsnum
  d_reason :: string

record RetentionDetails =
  retention_percent :: jsnum
  r_reason :: string

record Scores =
  next_execution :: int
  quality_score :: jsnum
  data_field_completeness :: "jsnum \<times> DataFieldCompletenessDetails"
  timeliness :: "jsnum \<times> TimelinessDetails"
  consistency :: "jsnum \<times> string"
  device_completeness :: "jsnum \<times> DeviceCompletenessDetails"
  retention :: "jsnum \<times> RetentionDetails"

text \<open>
  A \<open>{score, details}\<close> pair is a product, the score first. \<open>next_execution\<close> is kept as
  the epoch milliseconds that the ISO string of the source renders.

  A record of the log store, as far as the service reads it: the strings under
  \<open>@timestamp\<close> and \<open>event.ingested\<close>, either of which may be missing.
\<close>

record LogDoc =
  at_timestamp :: "string option"
  event_ingested :: "string option"

record QueryResult =
  exists :: bool
  lastDoc :: "LogDoc option"

section \<open>The search backend\<close>

datatype client = InternalUser | CurrentUser

datatype clause = Term string string | Terms string "string list"

datatype 'a resp = Throws | Returns 'a

text \<open>The calls issued to the backend, logged in the order of issue.\<close>

datatype es_call =
    LogsSearch client "clause list"
  | IndicesExists string
  | Count string
  | SearchScroll string
  | Scroll string
  | ClearScroll string
  | IndexDoc string string
  | Refresh string
  | SearchDue string int

definition LOGS_INDEX_PATTERN :: string where
  "LOGS_INDEX_PATTERN = ''logs-*''"

definition DEFAULT_REFRESH_DELAY_MS :: int where
  "DEFAULT_REFRESH_DELAY_MS = 7 * 24 * 60 * 60 * 1000"

definition DEFAULT_RETENTION_SCORE :: rat where
  "DEFAULT_RETENTION_SCORE = 5"

definition DEFAULT_DEVICE_COMPLETENESS_SCORE :: rat where
  "DEFAULT_DEVICE_COMPLETENESS_SCORE = 2"

text \<open>
  What the service does not decide itself: the answer of the log store to a search
  (by client and \<open>must\<close> clauses), the epoch milliseconds \<open>new Date(s).getTime()\<close> of a
  string (\<open>NaN\<close> for an invalid date), the settings documents as the settings cache
  returns them, and the constructor's \<open>refreshDelayMs\<close> argument.
\<close>

record env =
  logs_search :: "client \<Rightarrow> clause list \<Rightarrow> LogDoc list resp"
  Date_getTime :: "string \<Rightarrow> jsnum"
  retention_settings :: "(string \<times> rat) list"
  device_completeness_settings :: "(string \<times> rat) list"
  refreshDelayMs_arg :: "int option"

definition refreshDelayMs :: "env \<Rightarrow> int" where
  "refreshDelayMs e =
     (case refreshDelayMs_arg e of Some d \<Rightarrow> d | None \<Rightarrow> DEFAULT_REFRESH_DELAY_MS)"

section \<open>The scoring service\<close>

subsection \<open>Configured scores\<close>

text \<open>
  \<open>getRetentionScoreForPlatform\<close> and \<open>getDeviceCompletenessScoreForPlatform\<close>, after
  the settings were fetched. A value read for a named platform is converted by
  \<open>ToNumber\<close> here, as every later arithmetic use of it does.
\<close>

definition score_for_platform :: "(string \<times> rat) list \<Rightarrow> rat \<Rightarrow> string option \<Rightarrow> jsnum" where
  "score_for_platform settings dflt platform =
     (if truthy platform
      then ToNumber (nullish (get_property settings (the platform)) (Number (Num dflt)))
      else (let configuredScores = map snd settings in
            if length configuredScores = 0 then Num dflt
            else (let averageScore =
                        js_div_by (Num (foldl (+) 0 configuredScores))
                          (of_nat (length configuredScores))
                  in js_div_by (Math_round (js_mul averageScore (Num 10))) 10)))"

definition getRetentionScoreForPlatform :: "env \<Rightarrow> string option \<Rightarrow> jsnum" where
  "getRetentionScoreForPlatform e platform =
     score_for_platform (retention_settings e) DEFAULT_RETENTION_SCORE platform"

definition getDeviceCompletenessScoreForPlatform :: "env \<Rightarrow> string option \<Rightarrow> jsnum" where
  "getDeviceCompletenessScoreForPlatform e platform =
     score_for_platform (device_completeness_settings e)
       DEFAULT_DEVICE_COMPLETENESS_SCORE platform"

subsection \<open>Next execution\<close>

datatype error = RangeError | BackendError

text \<open>
  \<open>calculateNextExecution\<close>: \<open>now\<close> is the reading of \<open>Date.now()\<close>, \<open>r\<close> the draw of
  \<open>Math.random()\<close>. \<open>toISOString\<close> raises a \<open>RangeError\<close> outside the range of
  \<open>Date\<close>.
\<close>

definition calculateNextExecution :: "env \<Rightarrow> int \<Rightarrow> rat \<Rightarrow> error + int" where
  "calculateNextExecution e now r =
     (let randomSeconds = \<lfloor>r * (360 - 60 + 1)\<rfloor> + 60;
          nextExecutionMs = now + refreshDelayMs e + randomSeconds * 1000
      in if \<bar>nextExecutionMs\<bar> > 8640000000000000 then Inl RangeError
         else Inr nextExecutionMs)"

subsection \<open>The probe\<close>

text \<open>
  \<open>queryFieldExists\<close> with the log of backend calls passed through. Without a name
  field or value no search is issued; a failing search is answered like an empty one.
\<close>

definition mustClauses :: "string \<Rightarrow> string \<Rightarrow> string option \<Rightarrow> string option \<Rightarrow> clause list" where
  "mustClauses nameField nameValue channelField channelValue =
     Term nameField nameValue #
     (if truthy channelField \<and> truthy channelValue
      then (let channelValues = map trim (split_on CHR '','' (the channelValue)) in
            if length channelValues = 1 then [Term (the channelField) (hd channelValues)]
            else [Terms (the channelField) channelValues])
      else [])"

definition queryFieldExists ::
  "env \<Rightarrow> client \<Rightarrow> string \<Rightarrow> string \<Rightarrow> string option \<Rightarrow> string option \<Rightarrow>
   es_call list \<Rightarrow> QueryResult \<times> es_call list" where
  "queryFieldExists e cl nameField nameValue channelField channelValue calls =
     (if nameField = [] \<or> nameValue = []
      then (\<lparr>exists = False, lastDoc = None\<rparr>, calls)
      else (let must = mustClauses nameField nameValue channelField channelValue;
                calls' = calls @ [LogsSearch cl must]
            in case logs_search e cl must of
                 Throws \<Rightarrow> (\<lparr>exists = False, lastDoc = None\<rparr>, calls')
               | Returns hits \<Rightarrow>
                   (if length hits > 0
                    then (\<lparr>exists = True, lastDoc = Some (hd hits)\<rparr>, calls')
                    else (\<lparr>exists = False, lastDoc = None\<rparr>, calls'))))"

subsection \<open>The five dimension calculators\<close>

definition statusMultipliers :: "(string \<times> rat) list" where
  "statusMultipliers = [(''complete'', 1), (''partial'', 1 / 2), (''unmapped'', 0)]"

definition confidenceMultipliers :: "(string \<times> rat) list" where
  "confidenceMultipliers = [(''high'', 1), (''medium'', 8 / 10), (''low'', 4 / 10), ('''', 0)]"

record CompletenessResult =
  c_score :: jsnum
  c_details :: DataFieldCompletenessDetails
  c_lastDoc :: "LogDoc option"

definition calculateDataFieldCompletenessScore ::
  "env \<Rightarrow> client \<Rightarrow> string \<Rightarrow> string \<Rightarrow> string \<Rightarrow> string \<Rightarrow> string option \<Rightarrow> string option \<Rightarrow>
   es_call list \<Rightarrow> CompletenessResult \<times> es_call list" where
  "calculateDataFieldCompletenessScore e cl st conf nameField nameValue channelField
       channelValue calls =
     (let details = \<lparr>base_score = Num 0, status_multiplier = Number (Num 0),
                     confidence_multiplier = Number (Num 0), reason = ''''\<rparr>
      in if st = ''unmapped''
         then (\<lparr>c_score = Num 0, c_details = details\<lparr>reason := ''Status is unmapped''\<rparr>,
                c_lastDoc = None\<rparr>, calls)
         else (let details1 = details
                     \<lparr>status_multiplier := nullish (get_property statusMultipliers st) (Number (Num 0)),
                      confidence_multiplier :=
                        nullish (get_property confidenceMultipliers conf) (Number (Num 0))\<rparr>;
                   (queryResult, calls') =
                     queryFieldExists e cl nameField nameValue channelField channelValue calls;
                   details2 =
                     (if exists queryResult then details1\<lparr>base_score := Num 5\<rparr>
                      else details1\<lparr>base_score := Num 0,
                                    reason := ''Fields not found in Elasticsearch''\<rparr>);
                   finalScore =
                     js_mul (js_mul (base_score details2) (ToNumber (status_multiplier details2)))
                       (ToNumber (confidence_multiplier details2))
               in (\<lparr>c_score = js_div_by (Math_round (js_mul finalScore (Num 100))) 100,
                    c_details = details2, c_lastDoc = lastDoc queryResult\<rparr>, calls')))"

text \<open>
  \<open>calculateTimelinessScore\<close>. The formatted delta that the source appends to the
  reason (\<open>toFixed\<close>) is left out of the reason string.
\<close>

definition calculateTimelinessScore :: "env \<Rightarrow> LogDoc option \<Rightarrow> jsnum \<times> TimelinessDetails" where
  "calculateTimelinessScore e doc =
     (let details = \<lparr>last_doc_timestamp = None, last_doc_ingested = None,
                     delta_seconds = None, t_reason = ''''\<rparr>
      in case doc of
           None \<Rightarrow> (Num 0, details\<lparr>t_reason := ''No document available''\<rparr>)
         | Some d \<Rightarrow>
             (let timestampStr = at_timestamp d; ingestedStr = event_ingested d in
              if \<not> truthy ingestedStr
              then (Num 0, details\<lparr>t_reason := ''event.ingested field not found''\<rparr>)
              else if \<not> truthy timestampStr
              then (Num 0, details\<lparr>t_reason := ''@timestamp field not found''\<rparr>)
              else (let timestamp = Date_getTime e (the timestampStr);
                        ingested = Date_getTime e (the ingestedStr);
                        deltaSeconds = js_div_by (js_sub ingested timestamp) 1000;
                        deltaMinutes = js_div_by deltaSeconds 60;
                        details1 = details
                          \<lparr>last_doc_timestamp := timestampStr,
                           last_doc_ingested := ingestedStr,
                           delta_seconds :=
                             Some (js_div_by (Math_round (js_mul deltaSeconds (Num 100))) 100)\<rparr>
                    in if js_lt deltaMinutes (Num 5)
                       then (Num 5, details1\<lparr>t_reason := ''Delta < 5 minutes''\<rparr>)
                       else if js_lt deltaMinutes (Num 15)
                       then (Num 3, details1\<lparr>t_reason := ''Delta 5-15 minutes''\<rparr>)
                       else if js_lt deltaMinutes (Num 60)
                       then (Num 1, details1\<lparr>t_reason := ''Delta 15m-1h''\<rparr>)
                       else (Num 0, details1\<lparr>t_reason := ''Delta > 1 hour''\<rparr>))))"

definition calculateConsistencyScore :: "bool \<Rightarrow> jsnum \<times> string" where
  "calculateConsistencyScore fieldExists =
     (if fieldExists then (Num 5, ''Fields standardized to ECS format'')
      else (Num 0, ''Fields not found or not standardized''))"

definition calculateDeviceCompletenessScore :: "bool \<Rightarrow> jsnum \<Rightarrow> jsnum \<times> DeviceCompletenessDetails" where
  "calculateDeviceCompletenessScore fieldExists configuredScore =
     (if \<not> fieldExists
      then (Num 0, \<lparr>coverage_percent = Num 0, d_reason = ''Field not found - 0% coverage''\<rparr>)
      else (let coveragePercent = Math_round (js_mul (js_div_by configuredScore 5) (Num 100)) in
            (configuredScore,
             \<lparr>coverage_percent = coveragePercent,
              d_reason =
                (if configuredScore = Num DEFAULT_DEVICE_COMPLETENESS_SCORE
                 then ''Default score - adjust in settings based on actual device coverage''
                 else ''Configured device completeness score for platform'')\<rparr>)))"

definition calculateRetentionScore :: "bool \<Rightarrow> jsnum \<Rightarrow> jsnum \<times> RetentionDetails" where
  "calculateRetentionScore fieldExists configuredScore =
     (if \<not> fieldExists
      then (Num 0, \<lparr>retention_percent = Num 0, r_reason = ''Field not found - no data retention''\<rparr>)
      else (let retentionPercent = Math_round (js_mul (js_div_by configuredScore 5) (Num 100)) in
            (configuredScore,
             \<lparr>retention_percent = retentionPercent,
              r_reason =
                (if configuredScore = Num DEFAULT_RETENTION_SCORE
                 then ''Default score - adjust in settings if retention limitations exist''
                 else ''Configured retention score for platform'')\<rparr>)))"

subsection \<open>All scores of one log-source reference\<close>

text \<open>
  \<open>calculateScoresForLogSource\<close>. \<open>now\<close> and \<open>r\<close> are the clock reading and the random
  draw that \<open>calculateNextExecution\<close> takes when the result object is built, after the
  probe; its \<open>RangeError\<close> is the only way the function raises.
\<close>

definition calculateScoresForLogSource ::
  "env \<Rightarrow> client \<Rightarrow> LogSourceReference \<Rightarrow> string option \<Rightarrow> int \<Rightarrow> rat \<Rightarrow>
   es_call list \<Rightarrow> (error + Scores) \<times> es_call list" where
  "calculateScoresForLogSource e cl logSourceRef platform now r calls =
     (let m = mapping logSourceRef;
          useChannel = (status m = ''complete'');
          (completenessResult, calls') =
            calculateDataFieldCompletenessScore e cl (status m) (confidence m)
              (name_field (ecs m)) (name_value (ecs m))
              (if useChannel then Some (channel_field (ecs m)) else None)
              (if useChannel then Some (channel_value (ecs m)) else None) calls;
          fieldExists = js_gt (base_score (c_details completenessResult)) (Num 0);
          timelinessResult = calculateTimelinessScore e (c_lastDoc completenessResult);
          consistencyResult = calculateConsistencyScore fieldExists;
          configuredDeviceCompletenessScore = getDeviceCompletenessScoreForPlatform e platform;
          deviceCompletenessResult =
            calculateDeviceCompletenessScore fieldExists configuredDeviceCompletenessScore;
          configuredRetentionScore = getRetentionScoreForPlatform e platform;
          retentionResult = calculateRetentionScore fieldExists configuredRetentionScore;
          qualityScore =
            js_div_by
              (Math_round
                 (js_mul
                    (js_div_by
                       (js_add (js_add (js_add (js_add (c_score completenessResult)
                          (fst timelinessResult)) (fst consistencyResult))
                          (fst deviceCompletenessResult)) (fst retentionResult)) 5)
                    (Num 10))) 10
      in case calculateNextExecution e now r of
           Inl err \<Rightarrow> (Inl err, calls')
         | Inr nextExecution \<Rightarrow>
             (Inr \<lparr>next_execution = nextExecution,
                   quality_score = qualityScore,
                   data_field_completeness =
                     (c_score completenessResult, c_details completenessResult),
                   timeliness = timelinessResult,
                   consistency = consistencyResult,
                   device_completeness = deviceCompletenessResult,
                   retention = retentionResult\<rparr>, calls'))"

section \<open>Reference definitions for the scoring properties\<close>

text \<open>
  The multiplier tables as the specification words them: a status or confidence that the
  table does not list gets the multiplier zero.
\<close>

definition spec_status_multiplier :: "string \<Rightarrow> rat" where
  "spec_status_multiplier st =
     (if st = ''complete'' then 1 else if st = ''partial'' then 1 / 2 else 0)"

definition spec_confidence_multiplier :: "string \<Rightarrow> rat" where
  "spec_confidence_multiplier conf =
     (if conf = ''high'' then 1 else if conf = ''medium'' then 8 / 10
      else if conf = ''low'' then 4 / 10 else 0)"

text \<open>Rounding to the nearest multiple of \<open>1 / k\<close>: two decimals for \<open>k = 100\<close>, one for \<open>k = 10\<close>.\<close>

definition round_to :: "rat \<Rightarrow> rat \<Rightarrow> rat" where
  "round_to k x = of_int \<lfloor>x * k + 1 / 2\<rfloor> / k"

definition settings_in_range :: "(string \<times> rat) list \<Rightarrow> bool" where
  "settings_in_range settings = list_all (\<lambda>kv. 0 \<le> snd kv \<and> snd kv \<le> 5) settings"

text \<open>A logged call is a probe with a channel clause when it is a log search with a second clause.\<close>

definition is_probe_with_channel :: "es_call \<Rightarrow> bool" where
  "is_probe_with_channel c = (case c of LogsSearch cl must \<Rightarrow> length must > 1 | _ \<Rightarrow> False)"

definition channel_clause_included :: "es_call list \<Rightarrow> bool" where
  "channel_clause_included calls = list_ex is_probe_with_channel calls"

definition channel_clause :: "string \<Rightarrow> string \<Rightarrow> clause" where
  "channel_clause cf cv =
     (let vs = map trim (split_on CHR '','' cv) in
      if length vs = 1 then Term cf (hd vs) else Terms cf vs)"

text \<open>
  A concrete environment: the log store answers every search with one record ingested
  four minutes after its event time; no settings are configured; the service was
  constructed without a refresh delay.
\<close>

definition example_env :: env where
  "example_env =
     \<lparr>logs_search = (\<lambda>cl must. Returns [\<lparr>at_timestamp = Some ''2024-01-01T00:00:00Z'',
                                            event_ingested = Some ''2024-01-01T00:04:00Z''\<rparr>]),
      Date_getTime = (\<lambda>s. if s = ''2024-01-01T00:00:00Z'' then Num 1704067200000
                          else if s = ''2024-01-01T00:04:00Z'' then Num 1704067440000 else NaN),
      retention_settings = [], device_completeness_settings = [],
      refreshDelayMs_arg = None\<rparr>"

definition example_ref :: "string \<Rightarrow> string \<Rightarrow> string \<Rightarrow> LogSourceReference" where
  "example_ref st conf cv =
     \<lparr>x_mitre_data_component_ref = ''x-mitre-data-component--1'',
      data_component_name = ''Process Creation'', name = ''WinEventLog:Security'',
      channel = ''EventCode=4688'',
      mapping = \<lparr>ecs = \<lparr>name_field = ''event.provider'', name_value = ''Security'',
                         channel_field = ''event.code'', channel_value = cv\<rparr>,
                 status = st, confidence = conf, notes' = '''', verified = False\<rparr>\<rparr>"

section \<open>The result store, the analytic catalog and the orchestrator\<close>

subsection \<open>Stored documents\<close>

text \<open>
  A scored reference is the reference together with the \<open>scores\<close> object, which the
  source nests under \<open>mapping.ecs\<close>; a stored document may lack it.
\<close>

record LogSourceReferenceWithScores =
  reference :: LogSourceReference
  scores :: "Scores option"

record AnalyticDocumentWithScores =
  id' :: string
  name :: string
  x_mitre_log_source_references :: "LogSourceReferenceWithScores list"

definition ECS_INDEX_NAME :: string where
  "ECS_INDEX_NAME = ''.kibana-mitre-data-quality-ecs-default''"

definition RESULTS_INDEX_NAME :: string where
  "RESULTS_INDEX_NAME = ''.kibana-mitre-data-quality-results-default''"

subsection \<open>The backend as the orchestrator sees it\<close>

text \<open>
  One page of the scrolled scan of the analytic catalog: the hits, each with or without
  a \<open>_source\<close>, and the scroll id of the response.
\<close>

record page =
  hits :: "AnalyticDocument option list"
  scroll_id :: "string option"

text \<open>
  What the internal client answers and what may fail. The catalog scan is given by the
  answer to the first search and the answers to the successive scroll calls; once these
  are used up, a scroll call returns an empty page. \<open>clock\<close> is the time of the
  due-analytics query; \<open>draw\<close> gives, for the reference at a position of an analytic
  (by id), the clock reading and the random draw of its \<open>calculateNextExecution\<close>.
\<close>

record backend =
  ecs_index_exists :: "bool resp"
  ecs_first_page :: "page resp"
  ecs_next_pages :: "page resp list"
  clearScroll_throws :: bool
  index_throws :: "string \<Rightarrow> bool"
  refresh_throws :: bool
  results_exists_throws :: bool
  count_throws :: bool
  search_due_throws :: bool
  clock :: int
  draw :: "string \<Rightarrow> nat \<Rightarrow> int \<times> rat"

text \<open>
  The mutable state: the exclusive-run flag of the task runner, the client the scoring
  service probes with, the result store (absent, or its documents by id, visible as soon
  as they are written), whether a scroll context opened by the service is still open on
  the server, and the log of the calls issued.
\<close>

record state =
  isRunning :: bool
  logsClient :: client
  results_index :: "(string \<times> AnalyticDocumentWithScores) list option"
  scroll_open :: bool
  call_log :: "es_call list"

definition log_call :: "es_call \<Rightarrow> state \<Rightarrow> state" where
  "log_call c st = st\<lparr>call_log := call_log st @ [c]\<rparr>"

subsection \<open>Scoring one analytic\<close>

text \<open>The loop of \<open>processAnalytic\<close> over the references; it ends at the first error.\<close>

fun score_refs ::
  "env \<Rightarrow> client \<Rightarrow> (nat \<Rightarrow> int \<times> rat) \<Rightarrow> string option \<Rightarrow> nat \<Rightarrow> LogSourceReference list \<Rightarrow>
   es_call list \<Rightarrow> (error + LogSourceReferenceWithScores list) \<times> es_call list" where
  "score_refs e cl dr platform i [] calls = (Inr [], calls)"
| "score_refs e cl dr platform i (logSourceRef # rest) calls =
     (case calculateScoresForLogSource e cl logSourceRef platform (fst (dr i)) (snd (dr i)) calls of
        (Inl err, calls') \<Rightarrow> (Inl err, calls')
      | (Inr sc, calls') \<Rightarrow>
          (case score_refs e cl dr platform (Suc i) rest calls' of
             (Inl err, calls'') \<Rightarrow> (Inl err, calls'')
           | (Inr scored, calls'') \<Rightarrow>
               (Inr (\<lparr>reference = logSourceRef, scores = Some sc\<rparr> # scored), calls'')))"

definition processAnalytic ::
  "env \<Rightarrow> backend \<Rightarrow> client \<Rightarrow> AnalyticDocument \<Rightarrow> string option \<Rightarrow> es_call list \<Rightarrow>
   (error + AnalyticDocumentWithScores) \<times> es_call list" where
  "processAnalytic e b cl analytic platform calls =
     (case score_refs e cl (draw b (AnalyticDocument.id' analytic)) platform 0
             (AnalyticDocument.x_mitre_log_source_references analytic) calls of
        (Inl err, calls') \<Rightarrow> (Inl err, calls')
      | (Inr logSourcesWithScores, calls') \<Rightarrow>
          (Inr \<lparr>id' = AnalyticDocument.id' analytic,
                name = AnalyticDocument.name analytic,
                x_mitre_log_source_references = logSourcesWithScores\<rparr>, calls'))"

subsection \<open>Writing a result\<close>

text \<open>
  \<open>index({index: RESULTS_INDEX_NAME, id, document})\<close>, as both loops use it: inside a
  \<open>try\<close> whose \<open>catch\<close> only logs, so a failing write leaves the store as it was and
  the loop goes on. Writing to an absent index creates it.
\<close>

definition index_doc :: "backend \<Rightarrow> AnalyticDocumentWithScores \<Rightarrow> state \<Rightarrow> state" where
  "index_doc b doc st =
     (let st' = log_call (IndexDoc RESULTS_INDEX_NAME (id' doc)) st in
      if index_throws b (id' doc) then st'
      else st'\<lparr>results_index :=
                 Some (upsert (id' doc) doc
                         (case results_index st' of None \<Rightarrow> [] | Some docs \<Rightarrow> docs))\<rparr>)"

subsection \<open>The full pass\<close>

text \<open>
  The \<open>for\<close> loop over the hits of one page. A failure of \<open>processAnalytic\<close> or of the
  write is caught and logged. The counters of the source only feed log messages.
\<close>

fun process_hits :: "env \<Rightarrow> backend \<Rightarrow> AnalyticDocument option list \<Rightarrow> state \<Rightarrow> state" where
  "process_hits e b [] st = st"
| "process_hits e b (None # rest) st = process_hits e b rest st"
| "process_hits e b (Some analytic # rest) st =
     (if AnalyticDocument.x_mitre_log_source_references analytic = []
      then process_hits e b rest st
      else (case processAnalytic e b (logsClient st) analytic None (call_log st) of
              (Inl err, calls') \<Rightarrow> process_hits e b rest (st\<lparr>call_log := calls'\<rparr>)
            | (Inr processedAnalytic, calls') \<Rightarrow>
                process_hits e b rest (index_doc b processedAnalytic (st\<lparr>call_log := calls'\<rparr>))))"

text \<open>
  The \<open>while\<close> loop: process the current page, then continue the scroll if there is a
  scroll id, else break. The result is the scroll id at the exit, or the error of a
  failing scroll call.
\<close>

fun scroll_loop ::
  "env \<Rightarrow> backend \<Rightarrow> AnalyticDocument option list \<Rightarrow> string option \<Rightarrow> page resp list \<Rightarrow>
   state \<Rightarrow> state \<times> (error + string option)" where
  "scroll_loop e b hs scrollId pages st =
     (if length hs > 0
      then (let st1 = process_hits e b hs st in
            if truthy scrollId
            then (let st2 = log_call (Scroll (the scrollId)) st1 in
                  case pages of
                    [] \<Rightarrow> (st2, Inr scrollId)
                  | Throws # rest \<Rightarrow> (st2, Inl BackendError)
                  | Returns p # rest \<Rightarrow> scroll_loop e b (hits p) (scroll_id p) rest st2)
            else (st1, Inr scrollId))
      else (st, Inr scrollId))"

text \<open>
  \<open>processAllAnalytics\<close>: the state after the call, and the error it rethrows if any.
\<close>

definition processAllAnalytics :: "env \<Rightarrow> backend \<Rightarrow> state \<Rightarrow> state \<times> error option" where
  "processAllAnalytics e b st =
     (let st0 = log_call (IndicesExists ECS_INDEX_NAME) st in
      case ecs_index_exists b of
        Throws \<Rightarrow> (st0, Some BackendError)
      | Returns False \<Rightarrow> (st0, None)
      | Returns True \<Rightarrow>
          (let st1 = log_call (SearchScroll ECS_INDEX_NAME) st0 in
           case ecs_first_page b of
             Throws \<Rightarrow> (st1, Some BackendError)
           | Returns scrollResponse \<Rightarrow>
               (let st2 = st1\<lparr>scroll_open := truthy (scroll_id scrollResponse)\<rparr> in
                case scroll_loop e b (hits scrollResponse) (scroll_id scrollResponse)
                       (ecs_next_pages b) st2 of
                  (st3, Inl err) \<Rightarrow> (st3, Some err)
                | (st3, Inr scrollId) \<Rightarrow>
                    (let st4 = (if truthy scrollId
                                then log_call (ClearScroll (the scrollId)) st3 else st3) in
                     if truthy scrollId \<and> clearScroll_throws b then (st4, Some BackendError)
                     else (let st5 = (if truthy scrollId then st4\<lparr>scroll_open := False\<rparr>
                                      else st4);
                               st6 = log_call (Refresh RESULTS_INDEX_NAME) st5
                           in if refresh_throws b then (st6, Some BackendError)
                              else (st6, None))))))"

subsection \<open>The due analytics\<close>

text \<open>
  A stored document matches the range query on
  \<open>x_mitre_log_source_references.mapping.ecs.scores.next_execution\<close> when one of its
  references has a \<open>next_execution\<close> not after the given time.
\<close>

definition is_due :: "int \<Rightarrow> AnalyticDocumentWithScores \<Rightarrow> bool" where
  "is_due t doc =
     list_ex (\<lambda>r. case scores r of None \<Rightarrow> False | Some sc \<Rightarrow> next_execution sc \<le> t)
       (x_mitre_log_source_references doc)"

text \<open>
  \<open>getAnalyticsNeedingRecalculation\<close>: one search with \<open>size: 100\<close>, answered with at
  most that many of the matching documents, in store order; a failing search is answered
  with the empty list.
\<close>

definition getAnalyticsNeedingRecalculation ::
  "backend \<Rightarrow> state \<Rightarrow> AnalyticDocumentWithScores list \<times> state" where
  "getAnalyticsNeedingRecalculation b st =
     (let st' = log_call (SearchDue RESULTS_INDEX_NAME (clock b)) st in
      if search_due_throws b then ([], st')
      else (case results_index st' of
              None \<Rightarrow> ([], st')
            | Some docs \<Rightarrow> (take 100 (filter (is_due (clock b)) (map snd docs)), st')))"

subsection \<open>The task runner\<close>



datatype action = Init | Update | NoAction

text \<open>
  The analytic that \<open>runSmartScoringWithClient\<close> rebuilds, field by field, from a stored
  document before scoring it again.
\<close>

definition rebuild :: "AnalyticDocumentWithScores \<Rightarrow> AnalyticDocument" where
  "rebuild analytic =
     \<lparr>AnalyticDocument.id' = id' analytic,
      AnalyticDocument.name = name analytic,
      AnalyticDocument.x_mitre_log_source_references =
        map (\<lambda>r.
              \<lparr>x_mitre_data_component_ref = x_mitre_data_component_ref (reference r),
               data_component_name = data_component_name (reference r),
               LogSourceReference.name = LogSourceReference.name (reference r),
               channel = channel (reference r),
               mapping =
                 \<lparr>ecs = \<lparr>name_field = name_field (ecs (mapping (reference r))),
                          name_value = name_value (ecs (mapping (reference r))),
                          channel_field = channel_field (ecs (mapping (reference r))),
                          channel_value = channel_value (ecs (mapping (reference r)))\<rparr>,
                  status = status (mapping (reference r)),
                  confidence = confidence (mapping (reference r)),
                  notes' = notes' (mapping (reference r)),
                  verified = verified (mapping (reference r))\<rparr>\<rparr>)
          (x_mitre_log_source_references analytic)\<rparr>"

text \<open>The loop over the due analytics; each failure is caught and logged.\<close>

fun recalculate :: "env \<Rightarrow> backend \<Rightarrow> AnalyticDocumentWithScores list \<Rightarrow> state \<Rightarrow> state" where
  "recalculate e b [] st = st"
| "recalculate e b (analytic # rest) st =
     (case processAnalytic e b (logsClient st) (rebuild analytic) None (call_log st) of
        (Inl err, calls') \<Rightarrow> recalculate e b rest (st\<lparr>call_log := calls'\<rparr>)
      | (Inr processedAnalytic, calls') \<Rightarrow>
          recalculate e b rest (index_doc b processedAnalytic (st\<lparr>call_log := calls'\<rparr>)))"

text \<open>The \<open>try\<close> block of \<open>runSmartScoringWithClient\<close>.\<close>

definition full_init :: "env \<Rightarrow> backend \<Rightarrow> state \<Rightarrow> state \<times> (error + action \<times> int)" where
  "full_init e b st =
     (case processAllAnalytics e b st of
        (st', Some err) \<Rightarrow> (st', Inl err)
      | (st', None) \<Rightarrow> (st', Inr (Init, - 1)))"

definition smart_scoring_body :: "env \<Rightarrow> backend \<Rightarrow> state \<Rightarrow> state \<times> (error + action \<times> int)" where
  "smart_scoring_body e b st =
     (let st1 = log_call (IndicesExists RESULTS_INDEX_NAME) st in
      if results_exists_throws b then (st1, Inl BackendError)
      else (case results_index st1 of
              None \<Rightarrow> full_init e b st1
            | Some docs \<Rightarrow>
                (let st2 = log_call (Count RESULTS_INDEX_NAME) st1 in
                 if count_throws b then (st2, Inl BackendError)
                 else if length docs = 0 then full_init e b st2
                 else (let (dueAnalytics, st3) = getAnalyticsNeedingRecalculation b st2 in
                       if length dueAnalytics = 0 then (st3, Inr (NoAction, 0))
                       else (let st4 = recalculate e b dueAnalytics st3;
                                 st5 = log_call (Refresh RESULTS_INDEX_NAME) st4
                             in if refresh_throws b then (st5, Inl BackendError)
                                else (st5, Inr (Update, int (length dueAnalytics))))))))"

text \<open>
  \<open>runSmartScoringWithClient\<close>: the guard, the \<open>try\<close> block, and the \<open>finally\<close> block
  that resets the probe client and clears the flag whether the block returned or threw.
\<close>

definition runSmartScoringWithClient ::
  "env \<Rightarrow> backend \<Rightarrow> client \<Rightarrow> state \<Rightarrow> state \<times> (error + action \<times> int)" where
  "runSmartScoringWithClient e b cl st =
     (if isRunning st then (st, Inr (NoAction, 0))
      else (let st1 = st\<lparr>isRunning := True\<rparr>;
                (st2, res) = smart_scoring_body e b (st1\<lparr>logsClient := cl\<rparr>)
            in (st2\<lparr>logsClient := InternalUser, isRunning := False\<rparr>, res)))"

section \<open>Reference definitions for the orchestrator properties\<close>

text \<open>The ids of the write calls in a log, in order.\<close>

fun indexed_id :: "es_call \<Rightarrow> string list" where
  "indexed_id (IndexDoc ix i) = [i]"
| "indexed_id _ = []"

definition indexed_ids :: "es_call list \<Rightarrow> string list" where
  "indexed_ids calls = concat (map indexed_id calls)"

text \<open>A due analytic can be scored when scoring its rebuilt document does not raise.\<close>

definition scorable :: "env \<Rightarrow> backend \<Rightarrow> client \<Rightarrow> AnalyticDocumentWithScores \<Rightarrow> bool" where
  "scorable e b cl analytic =
     (case fst (processAnalytic e b cl (rebuild analytic) None []) of
        Inl err \<Rightarrow> False | Inr doc \<Rightarrow> True)"

text \<open>The documents that the capped search for due analytics returns from a store.\<close>

definition due_page :: "backend \<Rightarrow> (string \<times> AnalyticDocumentWithScores) list \<Rightarrow>
    AnalyticDocumentWithScores list" where
  "due_page b docs = take 100 (filter (is_due (clock b)) (map snd docs))"

text \<open>Every scroll continuation answers, and with a scroll id.\<close>

definition pages_ok :: "page resp list \<Rightarrow> bool" where
  "pages_ok pages =
     list_all (\<lambda>r. case r of Throws \<Rightarrow> False | Returns p \<Rightarrow> truthy (scroll_id p)) pages"

text \<open>
  A catalog of one analytic, served in one page followed by the empty page; a backend
  without failures; the idle orchestrator with no result store.
\<close>

definition example_analytic :: AnalyticDocument where
  "example_analytic =
     \<lparr>AnalyticDocument.id' = ''x-mitre-analytic--1'',
      AnalyticDocument.name = ''Analytic 1'',
      AnalyticDocument.x_mitre_log_source_references = [example_ref ''complete'' ''high'' ''4688'']\<rparr>"

definition example_backend :: backend where
  "example_backend =
     \<lparr>ecs_index_exists = Returns True,
      ecs_first_page = Returns \<lparr>hits = [Some example_analytic], scroll_id = Some ''scroll-1''\<rparr>,
      ecs_next_pages = [Returns \<lparr>hits = [], scroll_id = Some ''scroll-1''\<rparr>],
      clearScroll_throws = False,
      index_throws = (\<lambda>i. False),
      refresh_throws = False,
      results_exists_throws = False,
      count_throws = False,
      search_due_throws = False,
      clock = 1700000000000,
      draw = (\<lambda>i n. (1700000000000, 1 / 2))\<rparr>"

definition idle_state :: state where
  "idle_state =
     \<lparr>isRunning = False, logsClient = InternalUser, results_index = None,
      scroll_open = False, call_log = []\<rparr>"

text \<open>A store of \<open>n\<close> documents, each with one reference whose \<open>next_execution\<close> is \<open>t\<close>.\<close>

definition example_scores :: "int \<Rightarrow> Scores" where
  "example_scores t =
     \<lparr>next_execution = t, quality_score = Num 0,
      data_field_completeness =
        (Num 0, \<lparr>base_score = Num 0, status_multiplier = Number (Num 1),
                  confidence_multiplier = Number (Num 1),
                  reason = ''Fields not found in Elasticsearch''\<rparr>),
      timeliness =
        (Num 0, \<lparr>last_doc_timestamp = None, last_doc_ingested = None, delta_seconds = None,
                  t_reason = ''No document available''\<rparr>),
      consistency = (Num 0, ''Fields not found or not standardized''),
      device_completeness =
        (Num 0, \<lparr>coverage_percent = Num 0, d_reason = ''Field not found - 0% coverage''\<rparr>),
      retention =
        (Num 0, \<lparr>retention_percent = Num 0,
                  r_reason = ''Field not found - no data retention''\<rparr>)\<rparr>"

definition stored_doc :: "int \<Rightarrow> nat \<Rightarrow> string \<times> AnalyticDocumentWithScores" where
  "stored_doc t i =
     (''analytic-'' @ replicate i CHR ''x'',
      \<lparr>id' = ''analytic-'' @ replicate i CHR ''x'', name = ''Analytic'',
       x_mitre_log_source_references =
         [\<lparr>reference = example_ref ''complete'' ''high'' ''4688'',
           scores = Some (example_scores t)\<rparr>]\<rparr>)"

definition example_store :: "nat \<Rightarrow> int \<Rightarrow> (string \<times> AnalyticDocumentWithScores) list" where
  "example_store n t = map (stored_doc t) [0..<n]"

text \<open>The part of the state that no pass changes while it scores and writes.\<close>

definition flags :: "state \<Rightarrow> bool \<times> client \<times> bool" where
  "flags st = (isRunning st, logsClient st, scroll_open st)"

section \<open>Properties of the scoring service\<close>

subsection \<open>Data field completeness\<close>

lemma status_lookup:
  "st \<notin> set Object_prototype_keys \<Longrightarrow>
   ToNumber (nullish (get_property statusMultipliers st) (Number (Num 0))) =
     Num (spec_status_multiplier st)"
  by (simp add: get_property_def statusMultipliers_def spec_status_multiplier_def)

lemma confidence_lookup:
  "conf \<notin> set Object_prototype_keys \<Longrightarrow>
   ToNumber (nullish (get_property confidenceMultipliers conf) (Number (Num 0))) =
     Num (spec_confidence_multiplier conf)"
  by (simp add: get_property_def confidenceMultipliers_def spec_confidence_multiplier_def)

text \<open>
  For a status and a confidence that are not names of members of \<open>Object.prototype\<close>,
  the score is the one the specification gives: zero for \<open>unmapped\<close>, otherwise base
  times status multiplier times confidence multiplier, rounded to two decimals.
\<close>

lemma completeness_recognised:
  assumes "st \<notin> set Object_prototype_keys" "conf \<notin> set Object_prototype_keys"
  shows "c_score (fst (calculateDataFieldCompletenessScore e cl st conf nf nv cf cv calls)) =
     (if st = ''unmapped'' then Num 0
      else Num (round_to 100
             ((if exists (fst (queryFieldExists e cl nf nv cf cv calls)) then 5 else 0)
               * spec_status_multiplier st * spec_confidence_multiplier conf)))"
  using status_lookup[OF assms(1)] confidence_lookup[OF assms(2)]
  by (simp add: calculateDataFieldCompletenessScore_def round_to_def Let_def case_prod_beta)

text \<open>
  Claim C1: the completeness score is 0 for status \<open>unmapped\<close>; otherwise it is base
  (5 if the probe found a record, else 0) times the status multiplier (complete 1.0,
  partial 0.5, any unrecognized status 0) times the confidence multiplier (high 1.0,
  medium 0.8, low 0.4, unset or unrecognized 0), rounded to two decimals, and no status
  or confidence raises.

  The source reads the multiplier with \<open>statusMultipliers[status] ?? 0\<close> on an object
  literal. For the unrecognized status \<open>constructor\<close> the lookup finds the member
  inherited from \<open>Object.prototype\<close>, which is not nullish, so the default 0 is not
  taken and the product is \<open>NaN\<close>: the score is \<open>NaN\<close> where the claim says 0. Nothing
  is raised.
\<close>

theorem completeness_prototype_status_is_NaN:
  "c_score (fst (calculateDataFieldCompletenessScore example_env CurrentUser
                   ''constructor'' ''high'' ''event.provider'' ''Security'' None None [])) = NaN \<and>
   c_score (fst (calculateDataFieldCompletenessScore example_env CurrentUser
                   ''constructor'' ''high'' ''event.provider'' ''Security'' None None [])) \<noteq>
     Num (round_to 100 (5 * spec_status_multiplier ''constructor'' *
                          spec_confidence_multiplier ''high''))"
  by (simp add: calculateDataFieldCompletenessScore_def get_property_def statusMultipliers_def
      Object_prototype_keys_def Let_def case_prod_beta)

text \<open>The same holds for every probe answer and every confidence.\<close>

lemma completeness_constructor_NaN:
  "c_score (fst (calculateDataFieldCompletenessScore e cl ''constructor'' conf nf nv cf cv calls))
     = NaN"
  by (simp add: calculateDataFieldCompletenessScore_def get_property_def statusMultipliers_def
      Object_prototype_keys_def Let_def case_prod_beta)

subsection \<open>Ranges of the dimension scores\<close>

lemma round_to_range:
  fixes k :: int
  assumes "0 < k" "0 \<le> x" "x \<le> 5"
  shows "0 \<le> round_to (of_int k) x \<and> round_to (of_int k) x \<le> 5"
proof -
  have "0 \<le> x * of_int k + 1 / 2" using assms by simp
  then have lo: "0 \<le> \<lfloor>x * of_int k + 1 / 2\<rfloor>" by simp
  have "x * of_int k \<le> 5 * of_int k" using assms by simp
  then have "x * of_int k + 1 / 2 < of_int (5 * k + 1)" by simp
  then have "\<lfloor>x * of_int k + 1 / 2\<rfloor> < 5 * k + 1" by (simp only: floor_less_iff)
  then have hi: "\<lfloor>x * of_int k + 1 / 2\<rfloor> \<le> 5 * k" by simp
  have "(of_int \<lfloor>x * of_int k + 1 / 2\<rfloor> :: rat) \<le> of_int (5 * k)"
    using hi by (simp only: of_int_le_iff)
  then have "(of_int \<lfloor>x * of_int k + 1 / 2\<rfloor> :: rat) / of_int k \<le> 5"
    using assms(1) by (simp add: divide_le_eq)
  moreover have "0 \<le> (of_int \<lfloor>x * of_int k + 1 / 2\<rfloor> :: rat) / of_int k"
    using lo assms(1) by simp
  ultimately show ?thesis by (simp add: round_to_def)
qed

lemma round_to_10_range: "0 \<le> x \<Longrightarrow> x \<le> 5 \<Longrightarrow> 0 \<le> round_to 10 x \<and> round_to 10 x \<le> 5"
  using round_to_range[of 10 x] by simp

lemma round_to_100_range: "0 \<le> x \<Longrightarrow> x \<le> 5 \<Longrightarrow> 0 \<le> round_to 100 x \<and> round_to 100 x \<le> 5"
  using round_to_range[of 100 x] by simp

lemma foldl_plus_sum_list: "foldl (+) (a::rat) xs = a + sum_list xs"
  by (induction xs arbitrary: a) simp_all

lemma sum_list_range:
  "list_all (\<lambda>v. 0 \<le> v \<and> v \<le> (5::rat)) xs \<Longrightarrow>
   0 \<le> sum_list xs \<and> sum_list xs \<le> 5 * of_nat (length xs)"
  by (induction xs) (auto simp: algebra_simps)

text \<open>
  With every configured value in \<open>[0,5]\<close>, the score used when no platform is named
  (the rounded mean of the configured values, or the default) is in \<open>[0,5]\<close>.
\<close>

lemma score_for_platform_range:
  assumes "settings_in_range settings" "0 \<le> dflt" "dflt \<le> 5"
  shows "in_0_5 (score_for_platform settings dflt None)"
proof (cases "settings = []")
  case True
  then show ?thesis using assms by (simp add: score_for_platform_def)
next
  case False
  let ?xs = "map snd settings"
  have "list_all (\<lambda>v. 0 \<le> v \<and> v \<le> 5) ?xs"
    using assms(1) by (simp add: settings_in_range_def list_all_iff)
  from sum_list_range[OF this]
  have s: "0 \<le> sum_list ?xs" "sum_list ?xs \<le> 5 * of_nat (length settings)" by simp_all
  have n: "(0::rat) < of_nat (length settings)" using False by simp
  have a: "0 \<le> sum_list ?xs / of_nat (length settings)" using s(1) n by simp
  have b: "sum_list ?xs / of_nat (length settings) \<le> 5" using s(2) n by (simp add: divide_le_eq)
  from round_to_10_range[OF a b] False show ?thesis
    by (simp add: score_for_platform_def Let_def foldl_plus_sum_list round_to_def)
qed

lemma completeness_range:
  assumes "st \<notin> set Object_prototype_keys" "conf \<notin> set Object_prototype_keys"
  shows "in_0_5 (c_score (fst (calculateDataFieldCompletenessScore e cl st conf nf nv cf cv calls)))"
proof -
  have sm: "0 \<le> spec_status_multiplier st \<and> spec_status_multiplier st \<le> 1"
    by (simp add: spec_status_multiplier_def)
  have cm: "0 \<le> spec_confidence_multiplier conf \<and> spec_confidence_multiplier conf \<le> 1"
    by (simp add: spec_confidence_multiplier_def)
  have p: "0 \<le> spec_status_multiplier st * spec_confidence_multiplier conf \<and>
           spec_status_multiplier st * spec_confidence_multiplier conf \<le> 1"
    using sm cm by (simp add: mult_le_one)
  have "0 \<le> b * spec_status_multiplier st * spec_confidence_multiplier conf \<and>
        b * spec_status_multiplier st * spec_confidence_multiplier conf \<le> 5"
    if "b = 5 \<or> b = 0" for b :: rat
    using that p by (auto simp: mult.assoc)
  then show ?thesis
    using round_to_100_range
    by (simp add: completeness_recognised[OF assms])
qed

lemma timeliness_range: "in_0_5 (fst (calculateTimelinessScore e doc))"
  by (simp add: calculateTimelinessScore_def Let_def split: option.splits)

lemma consistency_range: "in_0_5 (fst (calculateConsistencyScore fe))"
  by (simp add: calculateConsistencyScore_def)

lemma device_range:
  "in_0_5 cs \<Longrightarrow> in_0_5 (fst (calculateDeviceCompletenessScore fe cs))"
  by (simp add: calculateDeviceCompletenessScore_def Let_def)

lemma retention_range:
  "in_0_5 cs \<Longrightarrow> in_0_5 (fst (calculateRetentionScore fe cs))"
  by (simp add: calculateRetentionScore_def Let_def)

lemma in_0_5_D: "in_0_5 x \<Longrightarrow> \<exists>a. x = Num a \<and> 0 \<le> a \<and> a \<le> 5"
  by (cases x) simp_all

text \<open>
  For a status and a confidence that are not names of members of \<open>Object.prototype\<close>
  and configured scores in \<open>[0,5]\<close>, the five dimension scores are in \<open>[0,5]\<close> and the
  quality score is their mean rounded to one decimal, in \<open>[0,5]\<close> too.
\<close>

lemma scores_for_log_source_range:
  assumes "status (mapping ref) \<notin> set Object_prototype_keys"
    and "confidence (mapping ref) \<notin> set Object_prototype_keys"
    and "in_0_5 (getDeviceCompletenessScoreForPlatform e platform)"
    and "in_0_5 (getRetentionScoreForPlatform e platform)"
    and "fst (calculateScoresForLogSource e cl ref platform now r calls) = Inr s"
  shows "\<exists>a b c d f.
           fst (data_field_completeness s) = Num a \<and> 0 \<le> a \<and> a \<le> 5 \<and>
           fst (timeliness s) = Num b \<and> 0 \<le> b \<and> b \<le> 5 \<and>
           fst (consistency s) = Num c \<and> 0 \<le> c \<and> c \<le> 5 \<and>
           fst (device_completeness s) = Num d \<and> 0 \<le> d \<and> d \<le> 5 \<and>
           fst (retention s) = Num f \<and> 0 \<le> f \<and> f \<le> 5 \<and>
           quality_score s = Num (round_to 10 ((a + b + c + d + f) / 5)) \<and>
           in_0_5 (quality_score s)"
proof -
  let ?m = "mapping ref"
  let ?uc = "status ?m = ''complete''"
  let ?cr = "fst (calculateDataFieldCompletenessScore e cl (status ?m) (confidence ?m)
                (name_field (ecs ?m)) (name_value (ecs ?m))
                (if ?uc then Some (channel_field (ecs ?m)) else None)
                (if ?uc then Some (channel_value (ecs ?m)) else None) calls)"
  let ?fe = "js_gt (base_score (c_details ?cr)) (Num 0)"
  let ?t = "calculateTimelinessScore e (c_lastDoc ?cr)"
  let ?k = "calculateConsistencyScore ?fe"
  let ?d = "calculateDeviceCompletenessScore ?fe (getDeviceCompletenessScoreForPlatform e platform)"
  let ?r = "calculateRetentionScore ?fe (getRetentionScoreForPlatform e platform)"
  from assms(5) have s:
    "fst (data_field_completeness s) = c_score ?cr" "timeliness s = ?t" "consistency s = ?k"
    "device_completeness s = ?d" "retention s = ?r"
    "quality_score s =
       js_div_by (Math_round (js_mul (js_div_by
         (js_add (js_add (js_add (js_add (c_score ?cr) (fst ?t)) (fst ?k)) (fst ?d)) (fst ?r)) 5)
         (Num 10))) 10"
    by (auto simp: calculateScoresForLogSource_def Let_def case_prod_beta split: sum.splits)
  obtain a where a: "c_score ?cr = Num a" "0 \<le> a" "a \<le> 5"
    using in_0_5_D[OF completeness_range[OF assms(1,2)]] by blast
  obtain b where b: "fst ?t = Num b" "0 \<le> b" "b \<le> 5"
    using in_0_5_D[OF timeliness_range] by blast
  obtain c where c: "fst ?k = Num c" "0 \<le> c" "c \<le> 5"
    using in_0_5_D[OF consistency_range] by blast
  obtain d where d: "fst ?d = Num d" "0 \<le> d" "d \<le> 5"
    using in_0_5_D[OF device_range[OF assms(3)]] by blast
  obtain f where f: "fst ?r = Num f" "0 \<le> f" "f \<le> 5"
    using in_0_5_D[OF retention_range[OF assms(4)]] by blast
  have q: "quality_score s = Num (round_to 10 ((a + b + c + d + f) / 5))"
    by (simp add: s(6) a(1) b(1) c(1) d(1) f(1) round_to_def)
  have m: "0 \<le> (a + b + c + d + f) / 5 \<and> (a + b + c + d + f) / 5 \<le> 5"
    using a b c d f by simp
  have "in_0_5 (quality_score s)"
    using round_to_10_range[of "(a + b + c + d + f) / 5"] m by (simp add: q)
  then show ?thesis
    using a b c d f q s(1-5) by auto
qed

text \<open>
  Claim C2: with the configured retention and device-completeness scores in \<open>[0,5]\<close>,
  each of the five dimension scores of every scored log-source reference lies in
  \<open>[0,5]\<close>, and the quality score is their mean rounded to one decimal.

  A reference whose status is \<open>constructor\<close> is scored (the defaults 2.0 and 5.0 are the
  configured scores here): its completeness score is \<open>NaN\<close>, which is not in \<open>[0,5]\<close>,
  and so is its quality score. This is the defect of claim C1, seen from the aggregate.
\<close>

theorem scores_prototype_status_out_of_range:
  "\<exists>s. fst (calculateScoresForLogSource example_env CurrentUser
              (example_ref ''constructor'' ''high'' ''4688'') None 1700000000000 (1 / 2) []) = Inr s \<and>
       in_0_5 (getDeviceCompletenessScoreForPlatform example_env None) \<and>
       in_0_5 (getRetentionScoreForPlatform example_env None) \<and>
       fst (data_field_completeness s) = NaN \<and>
       \<not> in_0_5 (fst (data_field_completeness s)) \<and>
       quality_score s = NaN"
  by (simp add: calculateScoresForLogSource_def calculateDataFieldCompletenessScore_def
      example_env_def example_ref_def get_property_def statusMultipliers_def
      Object_prototype_keys_def calculateNextExecution_def refreshDelayMs_def
      DEFAULT_REFRESH_DELAY_MS_def getDeviceCompletenessScoreForPlatform_def
      getRetentionScoreForPlatform_def score_for_platform_def
      DEFAULT_RETENTION_SCORE_def DEFAULT_DEVICE_COMPLETENESS_SCORE_def Let_def case_prod_beta)

subsection \<open>Next execution\<close>

lemma jitter_bounds:
  assumes "0 \<le> r" "r < 1"
  shows "0 \<le> \<lfloor>r * (301::rat)\<rfloor> \<and> \<lfloor>r * (301::rat)\<rfloor> \<le> 300"
proof -
  have "r * 301 < 301" using assms(2) by simp
  then have "\<lfloor>r * 301\<rfloor> \<le> 300" by (simp add: floor_less_iff flip: zle_add1_eq_le)
  then show ?thesis using assms(1) by simp
qed

text \<open>
  Claim C8: every computed \<open>next_execution\<close> is strictly after the time it was computed
  and, for every jitter draw, within \<open>[refreshInterval + 60 s, refreshInterval + 360 s]\<close>
  of it; the refresh interval defaults to 7 days.

  \<open>r\<close> ranges over the values of \<open>Math.random()\<close>, the interval \<open>[0,1)\<close>. The window holds
  for every refresh interval; "strictly after" is shown for every interval that is not
  negative (the default among them). A timestamp is computed whenever the sum is within
  the range of \<open>Date\<close>.
\<close>

theorem next_execution_window:
  assumes "0 \<le> r" and "r < 1"
  shows "(\<forall>t. calculateNextExecution e now r = Inr t \<longrightarrow>
            now + refreshDelayMs e + 60000 \<le> t \<and> t \<le> now + refreshDelayMs e + 360000 \<and>
            (0 \<le> refreshDelayMs e \<longrightarrow> now < t)) \<and>
         (\<bar>now\<bar> + \<bar>refreshDelayMs e\<bar> + 360000 \<le> 8640000000000000 \<longrightarrow>
            (\<exists>t. calculateNextExecution e now r = Inr t)) \<and>
         refreshDelayMs (e\<lparr>refreshDelayMs_arg := None\<rparr>) = 7 * 24 * 60 * 60 * 1000"
proof -
  define k where "k = \<lfloor>r * 301\<rfloor>"
  have k: "0 \<le> k" "k \<le> 300"
    using jitter_bounds[OF assms] by (simp_all add: k_def)
  have next_ms: "calculateNextExecution e now r =
      (if \<bar>now + refreshDelayMs e + (k + 60) * 1000\<bar> > 8640000000000000 then Inl RangeError
       else Inr (now + refreshDelayMs e + (k + 60) * 1000))"
    by (simp add: calculateNextExecution_def Let_def k_def)
  have window: "now + refreshDelayMs e + 60000 \<le> t \<and> t \<le> now + refreshDelayMs e + 360000 \<and>
      (0 \<le> refreshDelayMs e \<longrightarrow> now < t)"
    if "calculateNextExecution e now r = Inr t" for t
  proof -
    from that have "t = now + refreshDelayMs e + (k + 60) * 1000"
      by (simp add: next_ms split: if_splits)
    with k show ?thesis by auto
  qed
  have total: "\<exists>t. calculateNextExecution e now r = Inr t"
    if "\<bar>now\<bar> + \<bar>refreshDelayMs e\<bar> + 360000 \<le> 8640000000000000"
  proof -
    have "\<bar>now + refreshDelayMs e + (k + 60) * 1000\<bar> \<le> 8640000000000000"
      using k that by (simp add: abs_if split: if_splits)
    then show ?thesis by (simp add: next_ms)
  qed
  have dflt: "refreshDelayMs (e\<lparr>refreshDelayMs_arg := None\<rparr>) = 7 * 24 * 60 * 60 * 1000"
    by (simp add: refreshDelayMs_def DEFAULT_REFRESH_DELAY_MS_def)
  from window total dflt show ?thesis by blast
qed

theorem next_execution_window_witness:
  "\<exists>t. calculateNextExecution example_env 1700000000000 (1 / 2) = Inr t \<and>
       1700000000000 < t \<and>
       1700000000000 + refreshDelayMs example_env + 60000 \<le> t \<and>
       t \<le> 1700000000000 + refreshDelayMs example_env + 360000"
proof -
  have d: "refreshDelayMs example_env = 604800000"
    by (simp add: refreshDelayMs_def example_env_def DEFAULT_REFRESH_DELAY_MS_def)
  have r: "(0::rat) \<le> 1 / 2" "(1 / 2 :: rat) < 1" by simp_all
  from next_execution_window[OF r, of example_env 1700000000000] d show ?thesis
    by auto
qed

subsection \<open>The probe query\<close>

text \<open>The backend calls that scoring one reference adds to the log.\<close>

lemma probe_calls:
  "snd (calculateScoresForLogSource e cl ref platform now r calls) =
     calls @
     (let m = mapping ref in
      if status m = ''unmapped'' \<or> name_field (ecs m) = [] \<or> name_value (ecs m) = [] then []
      else [LogsSearch cl
              (Term (name_field (ecs m)) (name_value (ecs m)) #
               (if status m = ''complete'' \<and> channel_field (ecs m) \<noteq> [] \<and>
                   channel_value (ecs m) \<noteq> []
                then [channel_clause (channel_field (ecs m)) (channel_value (ecs m))]
                else []))])"
  by (simp add: calculateScoresForLogSource_def calculateDataFieldCompletenessScore_def
      queryFieldExists_def mustClauses_def channel_clause_def Let_def case_prod_beta
      split: sum.splits resp.splits)

text \<open>
  Claim C9: the channel clause is in the log-store query if and only if the status of the
  reference is \<open>complete\<close>; any other status is probed on the name field and value alone.

  As stated the claim fails: \<open>queryFieldExists\<close> adds the clause only when the channel
  field and the channel value are both non-empty, so a \<open>complete\<close> reference with an
  empty channel value is probed on the name alone.
\<close>

theorem channel_clause_iff_complete_counterexample:
  "\<not> (channel_clause_included
         (snd (calculateScoresForLogSource example_env CurrentUser
                 (example_ref ''complete'' ''high'' '''') None 1700000000000 (1 / 2) []))
       \<longleftrightarrow> status (mapping (example_ref ''complete'' ''high'' '''')) = ''complete'')"
  by (simp add: probe_calls channel_clause_included_def is_probe_with_channel_def
      example_ref_def Let_def)

text \<open>
  Claim C9, amended: the channel clause is in the query if and only if the status is
  \<open>complete\<close> and the channel field, the channel value, the name field and the name value
  are all non-empty. A reference with another status is probed on the name field and
  value alone; no query at all is issued for status \<open>unmapped\<close> or when the name field
  or the name value is empty.
\<close>

theorem channel_clause_included_iff:
  "(channel_clause_included (snd (calculateScoresForLogSource e cl ref platform now r [])) \<longleftrightarrow>
      status (mapping ref) = ''complete'' \<and>
      channel_field (ecs (mapping ref)) \<noteq> [] \<and> channel_value (ecs (mapping ref)) \<noteq> [] \<and>
      name_field (ecs (mapping ref)) \<noteq> [] \<and> name_value (ecs (mapping ref)) \<noteq> []) \<and>
   snd (calculateScoresForLogSource e cl ref platform now r []) =
     (if status (mapping ref) = ''unmapped'' \<or> name_field (ecs (mapping ref)) = [] \<or>
         name_value (ecs (mapping ref)) = [] then []
      else if status (mapping ref) = ''complete'' \<and> channel_field (ecs (mapping ref)) \<noteq> [] \<and>
              channel_value (ecs (mapping ref)) \<noteq> []
      then [LogsSearch cl
              [Term (name_field (ecs (mapping ref))) (name_value (ecs (mapping ref))),
               channel_clause (channel_field (ecs (mapping ref)))
                 (channel_value (ecs (mapping ref)))]]
      else [LogsSearch cl
              [Term (name_field (ecs (mapping ref))) (name_value (ecs (mapping ref)))]])"
  by (auto simp add: probe_calls channel_clause_included_def is_probe_with_channel_def Let_def)

section \<open>Properties of the orchestrator\<close>

subsection \<open>What the passes leave unchanged\<close>

text \<open>The loop equation of the scan is unfolded by hand, where needed.\<close>

declare scroll_loop.simps [simp del]




lemma log_call_frame:
  "flags (log_call c st) = flags st" "results_index (log_call c st) = results_index st"
  "call_log (log_call c st) = call_log st @ [c]"
  by (simp_all add: log_call_def flags_def)


lemma index_doc_frame:
  "flags (index_doc b d st) = flags st"
  "call_log (index_doc b d st) = call_log st @ [IndexDoc RESULTS_INDEX_NAME (id' d)]"
  by (simp_all add: index_doc_def log_call_def Let_def flags_def)





lemma log_call_fields:
  "isRunning (log_call c st) = isRunning st" "logsClient (log_call c st) = logsClient st"
  "scroll_open (log_call c st) = scroll_open st"
  by (simp_all add: log_call_def)

lemma flags_D:
  "flags s' = flags s \<Longrightarrow> isRunning s' = isRunning s \<and> logsClient s' = logsClient s \<and> scroll_open s' = scroll_open s"
  by (simp add: flags_def)



lemma getAnalyticsNeedingRecalculation_state:
  "snd (getAnalyticsNeedingRecalculation b st) = log_call (SearchDue RESULTS_INDEX_NAME (clock b)) st"
  by (simp add: getAnalyticsNeedingRecalculation_def Let_def split: option.splits)


lemma scroll_loop_ok:
  "pages_ok pages \<Longrightarrow> truthy sid \<Longrightarrow>
   \<exists>sid'. snd (scroll_loop e b hs sid pages st) = Inr sid' \<and> truthy sid'"
proof (induction pages arbitrary: hs sid st)
  case Nil
  then show ?case by (subst scroll_loop.simps) (simp add: Let_def)
next
  case (Cons p ps)
  show ?case
  proof (cases p)
    case Throws
    with Cons.prems show ?thesis by (simp add: pages_ok_def)
  next
    case (Returns pg)
    with Cons.prems have ok: "pages_ok ps" "truthy (scroll_id pg)" by (simp_all add: pages_ok_def)
    from Cons.IH[OF ok] Cons.prems(2) Returns show ?thesis
      by (subst scroll_loop.simps) (simp add: Let_def)
  qed
qed

lemma processAllAnalytics_closes_scroll:
  assumes "ecs_index_exists b = Returns True" "ecs_first_page b = Returns p"
    and "truthy (scroll_id p)" "pages_ok (ecs_next_pages b)" "\<not> clearScroll_throws b"
  shows "\<not> scroll_open (fst (processAllAnalytics e b st))"
proof -
  let ?st2 = "(log_call (SearchScroll ECS_INDEX_NAME) (log_call (IndicesExists ECS_INDEX_NAME) st))
                \<lparr>scroll_open := True\<rparr>"
  obtain st3 out where sl:
    "scroll_loop e b (hits p) (scroll_id p) (ecs_next_pages b) ?st2 = (st3, out)"
    by (cases "scroll_loop e b (hits p) (scroll_id p) (ecs_next_pages b) ?st2")
  from scroll_loop_ok[OF assms(4,3), of e b "hits p" ?st2] sl
  obtain sid' where out: "out = Inr sid'" "truthy sid'" by auto
  show ?thesis
    by (simp add: processAllAnalytics_def Let_def assms sl out log_call_fields)
qed

lemma queryFieldExists_append:
  "queryFieldExists e cl nf nv cf cv calls =
     (fst (queryFieldExists e cl nf nv cf cv []), calls @ snd (queryFieldExists e cl nf nv cf cv []))"
  by (simp add: queryFieldExists_def Let_def split: resp.splits)

lemma calculateScoresForLogSource_append:
  "calculateScoresForLogSource e cl ref p now r calls =
     (fst (calculateScoresForLogSource e cl ref p now r []),
      calls @ snd (calculateScoresForLogSource e cl ref p now r []))"
  by (simp add: calculateScoresForLogSource_def calculateDataFieldCompletenessScore_def
      queryFieldExists_def Let_def case_prod_beta split: sum.splits resp.splits)

lemma indexed_ids_append: "indexed_ids (xs @ ys) = indexed_ids xs @ indexed_ids ys"
  by (simp add: indexed_ids_def)

lemma indexed_ids_single: "indexed_ids [IndexDoc ix i] = [i]"
  by (simp add: indexed_ids_def)

lemma calculateScoresForLogSource_no_writes:
  "indexed_ids (snd (calculateScoresForLogSource e cl ref p now r [])) = []"
  by (simp add: probe_calls indexed_ids_def Let_def)

lemma score_refs_append:
  "score_refs e cl dr p i refs calls =
     (fst (score_refs e cl dr p i refs []), calls @ snd (score_refs e cl dr p i refs []))"
proof (induction refs arbitrary: i calls)
  case Nil
  show ?case by simp
next
  case (Cons x xs)
  obtain res c1 where h: "calculateScoresForLogSource e cl x p (fst (dr i)) (snd (dr i)) [] = (res, c1)"
    by (cases "calculateScoresForLogSource e cl x p (fst (dr i)) (snd (dr i)) []")
  have h': "calculateScoresForLogSource e cl x p (fst (dr i)) (snd (dr i)) calls = (res, calls @ c1)"
    using calculateScoresForLogSource_append[of e cl x p "fst (dr i)" "snd (dr i)" calls] h by simp
  show ?case
  proof (cases res)
    case (Inl err)
    then show ?thesis by (simp add: h h')
  next
    case (Inr sc)
    obtain r2 c2 where t: "score_refs e cl dr p (Suc i) xs [] = (r2, c2)"
      by (cases "score_refs e cl dr p (Suc i) xs []")
    have t1: "score_refs e cl dr p (Suc i) xs c1 = (r2, c1 @ c2)"
      using Cons.IH[of "Suc i" c1] t by simp
    have t2: "score_refs e cl dr p (Suc i) xs (calls @ c1) = (r2, calls @ c1 @ c2)"
      using Cons.IH[of "Suc i" "calls @ c1"] t by simp
    show ?thesis by (cases r2) (simp_all add: h h' Inr t1 t2)
  qed
qed

lemma score_refs_no_writes: "indexed_ids (snd (score_refs e cl dr p i refs [])) = []"
proof (induction refs arbitrary: i)
  case Nil
  show ?case by (simp add: indexed_ids_def)
next
  case (Cons x xs)
  obtain res c1 where h: "calculateScoresForLogSource e cl x p (fst (dr i)) (snd (dr i)) [] = (res, c1)"
    by (cases "calculateScoresForLogSource e cl x p (fst (dr i)) (snd (dr i)) []")
  have c1: "indexed_ids c1 = []"
    using calculateScoresForLogSource_no_writes[of e cl x p "fst (dr i)" "snd (dr i)"] h by simp
  show ?case
  proof (cases res)
    case (Inl err)
    then show ?thesis by (simp add: h c1)
  next
    case (Inr sc)
    obtain r2 c2 where t: "score_refs e cl dr p (Suc i) xs [] = (r2, c2)"
      by (cases "score_refs e cl dr p (Suc i) xs []")
    have t1: "score_refs e cl dr p (Suc i) xs c1 = (r2, c1 @ c2)"
      using score_refs_append[of e cl dr p "Suc i" xs c1] t by simp
    have c2: "indexed_ids c2 = []" using Cons.IH[of "Suc i"] t by simp
    show ?thesis by (cases r2) (simp_all add: h Inr t1 c1 c2 indexed_ids_append)
  qed
qed

lemma processAnalytic_append:
  "processAnalytic e b cl a p calls =
     (fst (processAnalytic e b cl a p []), calls @ snd (processAnalytic e b cl a p []))"
proof -
  let ?dr = "draw b (AnalyticDocument.id' a)"
  let ?refs = "AnalyticDocument.x_mitre_log_source_references a"
  obtain r2 c2 where t: "score_refs e cl ?dr p 0 ?refs [] = (r2, c2)"
    by (cases "score_refs e cl ?dr p 0 ?refs []")
  have t1: "score_refs e cl ?dr p 0 ?refs calls = (r2, calls @ c2)"
    using score_refs_append[of e cl ?dr p 0 ?refs calls] t by simp
  show ?thesis by (cases r2) (simp_all add: processAnalytic_def t t1)
qed

lemma processAnalytic_no_writes: "indexed_ids (snd (processAnalytic e b cl a p [])) = []"
proof -
  let ?dr = "draw b (AnalyticDocument.id' a)"
  let ?refs = "AnalyticDocument.x_mitre_log_source_references a"
  obtain r2 c2 where t: "score_refs e cl ?dr p 0 ?refs [] = (r2, c2)"
    by (cases "score_refs e cl ?dr p 0 ?refs []")
  have "indexed_ids c2 = []" using score_refs_no_writes[of e cl ?dr p 0 ?refs] t by simp
  then show ?thesis by (cases r2) (simp_all add: processAnalytic_def t)
qed

lemma processAnalytic_id:
  "fst (processAnalytic e b cl a p calls) = Inr d \<Longrightarrow> id' d = AnalyticDocument.id' a"
  by (auto simp: processAnalytic_def split: prod.splits sum.splits)

lemma recalculate_indexed:
  "indexed_ids (call_log (recalculate e b due st)) =
     indexed_ids (call_log st) @ map id' (filter (scorable e b (logsClient st)) due)"
proof (induction due arbitrary: st)
  case Nil
  show ?case by simp
next
  case (Cons a due)
  let ?cl = "logsClient st"
  obtain res c1 where h: "processAnalytic e b ?cl (rebuild a) None [] = (res, c1)"
    by (cases "processAnalytic e b ?cl (rebuild a) None []")
  have h': "processAnalytic e b ?cl (rebuild a) None (call_log st) = (res, call_log st @ c1)"
    using processAnalytic_append[of e b ?cl "rebuild a" None "call_log st"] h by simp
  have c1: "indexed_ids c1 = []"
    using processAnalytic_no_writes[of e b ?cl "rebuild a" None] h by simp
  show ?case
  proof (cases res)
    case (Inl err)
    then have "\<not> scorable e b ?cl a" by (simp add: scorable_def h)
    then show ?thesis
      by (simp add: h' Inl Cons.IH indexed_ids_append c1)
  next
    case (Inr d)
    then have sc: "scorable e b ?cl a" by (simp add: scorable_def h)
    have d: "id' d = id' a"
      using processAnalytic_id[of e b ?cl "rebuild a" None "[]" d] h Inr
      by (simp add: rebuild_def)
    have cl: "logsClient (index_doc b d (st\<lparr>call_log := call_log st @ c1\<rparr>)) = ?cl"
      using flags_D[OF index_doc_frame(1)] by simp
    show ?thesis
      by (simp add: h' Inr Cons.IH cl sc d index_doc_frame(2) indexed_ids_append c1
          indexed_ids_single)
  qed
qed


lemma indexed_ids_snoc_other:
  "indexed_ids (xs @ [IndicesExists ix]) = indexed_ids xs"
  "indexed_ids (xs @ [Count ix]) = indexed_ids xs"
  "indexed_ids (xs @ [SearchDue ix t]) = indexed_ids xs"
  "indexed_ids (xs @ [Refresh ix]) = indexed_ids xs"
  by (simp_all add: indexed_ids_def)

lemma due_page_length: "length (due_page b docs) = min 100 (length (filter (is_due (clock b)) (map snd docs)))"
  by (simp add: due_page_def min.commute)


lemma getAnalyticsNeedingRecalculation_ok:
  "\<not> search_due_throws b \<Longrightarrow> results_index st = Some docs \<Longrightarrow>
   getAnalyticsNeedingRecalculation b st =
     (due_page b docs, log_call (SearchDue RESULTS_INDEX_NAME (clock b)) st)"
  by (simp add: getAnalyticsNeedingRecalculation_def due_page_def Let_def log_call_def)

lemma getAnalyticsNeedingRecalculation_length:
  "length (fst (getAnalyticsNeedingRecalculation b st)) \<le> 100"
  by (simp add: getAnalyticsNeedingRecalculation_def Let_def split: option.splits)



lemma smart_scoring_body_results:
  assumes "\<not> results_exists_throws b" "\<not> count_throws b" "\<not> search_due_throws b"
    and "results_index st = Some docs" "docs \<noteq> []"
  shows "smart_scoring_body e b st =
     (let st3 = log_call (SearchDue RESULTS_INDEX_NAME (clock b))
                  (log_call (Count RESULTS_INDEX_NAME)
                     (log_call (IndicesExists RESULTS_INDEX_NAME) st)) in
      if due_page b docs = [] then (st3, Inr (NoAction, 0))
      else (log_call (Refresh RESULTS_INDEX_NAME) (recalculate e b (due_page b docs) st3),
            if refresh_throws b then Inl BackendError
            else Inr (Update, int (length (due_page b docs)))))"
proof -
  let ?st2 = "log_call (Count RESULTS_INDEX_NAME) (log_call (IndicesExists RESULTS_INDEX_NAME) st)"
  have r: "results_index ?st2 = Some docs" using assms(4) by (simp add: log_call_def)
  have g: "getAnalyticsNeedingRecalculation b ?st2 =
      (due_page b docs, log_call (SearchDue RESULTS_INDEX_NAME (clock b)) ?st2)"
    by (rule getAnalyticsNeedingRecalculation_ok[OF assms(3) r])
  have r1: "results_index (log_call (IndicesExists RESULTS_INDEX_NAME) st) = Some docs"
    using assms(4) by (simp add: log_call_def)
  show ?thesis
    using assms(1,2,5) by (simp add: smart_scoring_body_def Let_def r1 g)
qed

lemma full_init_not_update: "snd (full_init e b st) \<noteq> Inr (Update, n)"
  by (simp add: full_init_def split: prod.splits option.splits)

lemma smart_scoring_body_update_le:
  "snd (smart_scoring_body e b st) = Inr (Update, n) \<Longrightarrow> n \<le> 100"
  using getAnalyticsNeedingRecalculation_length[of b
      "log_call (Count RESULTS_INDEX_NAME) (log_call (IndicesExists RESULTS_INDEX_NAME) st)"]
    full_init_not_update[of e b _ n]
  by (auto simp: smart_scoring_body_def Let_def case_prod_beta split: option.splits if_splits)

lemma runSmart_update_le:
  "snd (runSmartScoringWithClient e b cl st) = Inr (Update, n) \<Longrightarrow> n \<le> 100"
  using smart_scoring_body_update_le[of e b "st\<lparr>isRunning := True, logsClient := cl\<rparr>" n]
  by (auto simp: runSmartScoringWithClient_def Let_def case_prod_beta split: if_splits)

lemma runSmart_idle:
  "\<not> isRunning st \<Longrightarrow>
   runSmartScoringWithClient e b cl st =
     ((fst (smart_scoring_body e b (st\<lparr>isRunning := True, logsClient := cl\<rparr>)))
        \<lparr>logsClient := InternalUser, isRunning := False\<rparr>,
      snd (smart_scoring_body e b (st\<lparr>isRunning := True, logsClient := cl\<rparr>)))"
  by (simp add: runSmartScoringWithClient_def Let_def case_prod_beta)


lemma runSmart_update:
  assumes "\<not> isRunning st" "\<not> results_exists_throws b" "\<not> count_throws b" "\<not> search_due_throws b"
    and "\<not> refresh_throws b" "results_index st = Some docs" "due_page b docs \<noteq> []"
  shows "snd (runSmartScoringWithClient e b cl st) = Inr (Update, int (length (due_page b docs))) \<and>
         indexed_ids (call_log (fst (runSmartScoringWithClient e b cl st))) =
           indexed_ids (call_log st) @ map id' (filter (scorable e b cl) (due_page b docs))"
proof -
  let ?s = "st\<lparr>isRunning := True, logsClient := cl\<rparr>"
  let ?st3 = "log_call (SearchDue RESULTS_INDEX_NAME (clock b))
                (log_call (Count RESULTS_INDEX_NAME)
                   (log_call (IndicesExists RESULTS_INDEX_NAME) ?s))"
  have ne: "docs \<noteq> []" using assms(7) by (auto simp: due_page_def)
  have "results_index ?s = Some docs" using assms(6) by simp
  from smart_scoring_body_results[OF assms(2,3,4) this ne, of e] assms(5,7)
  have body: "smart_scoring_body e b ?s =
      (log_call (Refresh RESULTS_INDEX_NAME) (recalculate e b (due_page b docs) ?st3),
       Inr (Update, int (length (due_page b docs))))"
    by (simp add: Let_def)
  have cl: "logsClient ?st3 = cl" by (simp add: log_call_fields)
  have log: "indexed_ids (call_log ?st3) = indexed_ids (call_log st)"
    by (simp add: log_call_def indexed_ids_def)
  have "indexed_ids (call_log (recalculate e b (due_page b docs) ?st3)) =
          indexed_ids (call_log st) @ map id' (filter (scorable e b cl) (due_page b docs))"
    using recalculate_indexed[of e b "due_page b docs" ?st3] by (simp only: cl log)
  then show ?thesis
    by (simp add: runSmart_idle[OF assms(1)] body log_call_frame(3) indexed_ids_snoc_other)
qed


subsection \<open>The exclusive-run flag\<close>



subsection \<open>The scroll of the full pass\<close>

text \<open>
  Claim C5: \<open>processAllAnalytics\<close> explicitly closes the server-side scroll it opened
  for the paged scan of the analytic catalog on every exit path: normal completion,
  early break, and error (for example a failing scroll continuation or a failing
  results-index refresh).

  \<open>clearScroll\<close> is called only after the loop. When the scroll continuation fails after
  the first page, the \<open>catch\<close> block logs and rethrows: the pass ends with the error, the
  scroll still open, and no \<open>clearScroll\<close> among the calls issued.
\<close>

theorem scroll_left_open_on_scroll_failure:
  "snd (processAllAnalytics example_env (example_backend\<lparr>ecs_next_pages := [Throws]\<rparr>) idle_state)
     = Some BackendError \<and>
   scroll_open (fst (processAllAnalytics example_env
                       (example_backend\<lparr>ecs_next_pages := [Throws]\<rparr>) idle_state)) \<and>
   call_log (fst (processAllAnalytics example_env
                    (example_backend\<lparr>ecs_next_pages := [Throws]\<rparr>) idle_state)) =
     [IndicesExists ECS_INDEX_NAME, SearchScroll ECS_INDEX_NAME,
      LogsSearch InternalUser [Term ''event.provider'' ''Security'', Term ''event.code'' ''4688''],
      IndexDoc RESULTS_INDEX_NAME ''x-mitre-analytic--1'',
      Scroll ''scroll-1'']"
  by (simp add: processAllAnalytics_def example_backend_def idle_state_def Let_def log_call_def
      scroll_loop.simps example_analytic_def processAnalytic_def example_ref_def example_env_def
      calculateScoresForLogSource_def calculateDataFieldCompletenessScore_def
      queryFieldExists_def mustClauses_def calculateNextExecution_def refreshDelayMs_def
      DEFAULT_REFRESH_DELAY_MS_def index_doc_def trim_def is_space_def case_prod_beta)

subsection \<open>The smart pass\<close>

lemma example_store_due:
  "t \<le> clock b \<Longrightarrow>
   filter (is_due (clock b)) (map snd (example_store n t)) = map snd (example_store n t)"
  by (simp add: example_store_def stored_doc_def is_due_def example_scores_def)

lemma example_store_length: "length (example_store n t) = n"
  by (simp add: example_store_def)






text \<open>
  Claim C10: a smart pass recomputes at most 100 due analytics per invocation: the scan
  for due analytics issues a single search capped at 100 results with no paging, so when
  more than 100 analytics are due only the first page is recomputed, and the reported
  update count never exceeds 100.
\<close>

theorem due_scan_capped:
  "length (fst (getAnalyticsNeedingRecalculation b st)) \<le> 100 \<and>
   call_log (snd (getAnalyticsNeedingRecalculation b st)) =
     call_log st @ [SearchDue RESULTS_INDEX_NAME (clock b)] \<and>
   (\<forall>n. snd (runSmartScoringWithClient e b cl st) = Inr (Update, n) \<longrightarrow> n \<le> 100) \<and>
   (\<forall>docs. \<not> isRunning st \<and> \<not> results_exists_throws b \<and> \<not> count_throws b \<and>
           \<not> search_due_throws b \<and> \<not> refresh_throws b \<and> results_index st = Some docs \<and>
           100 < length (filter (is_due (clock b)) (map snd docs)) \<longrightarrow>
      snd (runSmartScoringWithClient e b cl st) = Inr (Update, 100) \<and>
      indexed_ids (call_log (fst (runSmartScoringWithClient e b cl st))) =
        indexed_ids (call_log st) @
        map id' (filter (scorable e b cl)
                   (take 100 (filter (is_due (clock b)) (map snd docs)))))"
proof -
  have one: "call_log (snd (getAnalyticsNeedingRecalculation b st)) =
      call_log st @ [SearchDue RESULTS_INDEX_NAME (clock b)]"
    by (simp add: getAnalyticsNeedingRecalculation_state log_call_def)
  have over: "snd (runSmartScoringWithClient e b cl st) = Inr (Update, 100) \<and>
      indexed_ids (call_log (fst (runSmartScoringWithClient e b cl st))) =
        indexed_ids (call_log st) @
        map id' (filter (scorable e b cl)
                   (take 100 (filter (is_due (clock b)) (map snd docs))))"
    if h: "\<not> isRunning st" "\<not> results_exists_throws b" "\<not> count_throws b"
      "\<not> search_due_throws b" "\<not> refresh_throws b" "results_index st = Some docs"
      and many: "100 < length (filter (is_due (clock b)) (map snd docs))" for docs
  proof -
    have len: "length (due_page b docs) = 100" using many by (simp add: due_page_length)
    then have ne: "due_page b docs \<noteq> []" by auto
    from runSmart_update[OF h ne, of e cl] len show ?thesis
      by (simp add: due_page_def)
  qed
  from getAnalyticsNeedingRecalculation_length[of b st] one
    runSmart_update_le[of e b cl st] over
  show ?thesis by blast
qed

theorem due_scan_capped_witness:
  "100 < length (filter (is_due (clock example_backend)) (map snd (example_store 101 0))) \<and>
   snd (runSmartScoringWithClient example_env example_backend CurrentUser
          (idle_state\<lparr>results_index := Some (example_store 101 0)\<rparr>)) = Inr (Update, 100)"
proof -
  let ?st = "idle_state\<lparr>results_index := Some (example_store 101 0)\<rparr>"
  have c: "(0::int) \<le> clock example_backend" by (simp add: example_backend_def)
  have many: "100 < length (filter (is_due (clock example_backend))
                              (map snd (example_store 101 0)))"
    by (simp add: example_store_due[OF c] example_store_length)
  have h: "\<not> isRunning ?st \<and> \<not> results_exists_throws example_backend \<and>
      \<not> count_throws example_backend \<and> \<not> search_due_throws example_backend \<and>
      \<not> refresh_throws example_backend \<and> results_index ?st = Some (example_store 101 0)"
    by (simp add: idle_state_def example_backend_def)
  from due_scan_capped[of example_backend ?st example_env CurrentUser] h many
  have "snd (runSmartScoringWithClient example_env example_backend CurrentUser ?st) =
          Inr (Update, 100)"
    by blast
  with many show ?thesis by simp
qed

section \<open>Properties of the taxonomy parser\<close>

subsection \<open>Extraction\<close>

lemma upsert_map_fst:
  "map fst (upsert k v m) = (if map_of m k = None then map fst m @ [k] else map fst m)"
  by (induction m) auto

lemma upsert_keys: "fst ` set (upsert k v m) = insert k (fst ` set m)"
proof (cases "map_of m k = None")
  case True
  have "set (map fst (upsert k v m)) = insert k (set (map fst m))"
    using True by (simp add: upsert_map_fst)
  then show ?thesis by (simp only: set_map)
next
  case False
  then have "k \<in> fst ` set m" by (simp add: map_of_eq_None_iff)
  then have a: "insert k (fst ` set m) = fst ` set m" by (rule insert_absorb)
  have "map fst (upsert k v m) = map fst m"
    using False by (simp only: upsert_map_fst if_False)
  then have "set (map fst (upsert k v m)) = set (map fst m)"
    by (rule arg_cong)
  then show ?thesis by (simp only: set_map a)
qed

text \<open>A key of a map filled by a guarded loop comes from an object that passed the guard.\<close>

lemma foldl_upsert_keys:
  "k \<in> fst ` set (foldl (\<lambda>m x. if g x then upsert (key x) (mk x) m else m) m0 xs) \<Longrightarrow>
   k \<in> fst ` set m0 \<or> (\<exists>x \<in> set xs. g x \<and> key x = k)"
proof (induction xs arbitrary: m0)
  case Nil
  then show ?case by simp
next
  case (Cons x xs)
  show ?case
  proof (cases "g x")
    case True
    with Cons.prems
    have "k \<in> fst ` set (foldl (\<lambda>m x. if g x then upsert (key x) (mk x) m else m)
                            (upsert (key x) (mk x) m0) xs)"
      by simp
    from Cons.IH[OF this]
    have "k \<in> insert (key x) (fst ` set m0) \<or> (\<exists>y \<in> set xs. g y \<and> key y = k)"
      by (simp only: upsert_keys)
    with True show ?thesis by auto
  next
    case False
    with Cons.prems
    have "k \<in> fst ` set (foldl (\<lambda>m x. if g x then upsert (key x) (mk x) m else m) m0 xs)"
      by simp
    from Cons.IH[OF this] show ?thesis by auto
  qed
qed

text \<open>
  What the three extractors keep: an attack pattern comes from an object that is neither
  deprecated nor revoked and has a name and external references; a detection strategy
  and an analytic come from an object that is not deprecated and has a name and
  external references.
\<close>

lemma extractAttackPatterns_kept:
  "p \<in> set (extractAttackPatterns b) \<Longrightarrow>
   \<exists>obj \<in> set (objects b).
      StixObject.id' obj = StixAttackPattern.id' p \<and> StixObject.type obj = ''attack-pattern'' \<and>
      not_withdrawn obj \<and> identified obj"
  by (auto simp: extractAttackPatterns_def not_withdrawn_def identified_def)

lemma extractDetectionStrategies_kept:
  assumes "k \<in> fst ` set (extractDetectionStrategies b)"
  shows "\<exists>obj \<in> set (objects b).
      StixObject.id' obj = k \<and> StixObject.type obj = ''x-mitre-detection-strategy'' \<and>
      \<not> truthy_flag (StixObject.x_mitre_deprecated obj) \<and> identified obj"
proof -
  from assms have "k \<in> fst ` set ([] :: (string \<times> StixDetectionStrategy) list) \<or>
      (\<exists>x \<in> set (objects b).
         (StixObject.type x = ''x-mitre-detection-strategy'' \<and>
          \<not> truthy_flag (StixObject.x_mitre_deprecated x) \<and>
          truthy (StixObject.name x) \<and> StixObject.external_references x \<noteq> None) \<and>
         StixObject.id' x = k)"
    unfolding extractDetectionStrategies_def by (rule foldl_upsert_keys)
  then show ?thesis by (auto simp: identified_def)
qed

lemma extractAnalytics_kept:
  assumes "k \<in> fst ` set (extractAnalytics b)"
  shows "\<exists>obj \<in> set (objects b).
      StixObject.id' obj = k \<and> StixObject.type obj = ''x-mitre-analytic'' \<and>
      \<not> truthy_flag (StixObject.x_mitre_deprecated obj) \<and> identified obj"
proof -
  from assms have "k \<in> fst ` set ([] :: (string \<times> StixAnalytic) list) \<or>
      (\<exists>x \<in> set (objects b).
         (StixObject.type x = ''x-mitre-analytic'' \<and>
          \<not> truthy_flag (StixObject.x_mitre_deprecated x) \<and>
          truthy (StixObject.name x) \<and> StixObject.external_references x \<noteq> None) \<and>
         StixObject.id' x = k)"
    unfolding extractAnalytics_def by (rule foldl_upsert_keys)
  then show ?thesis by (auto simp: identified_def)
qed

text \<open>
  Claim C6: the extraction step excludes, from the typed collections it produces, every
  attack-pattern, detection-strategy and analytic object marked deprecated or revoked,
  and every such object lacking a name or external references.

  \<open>extractAttackPatterns\<close> tests \<open>!obj.revoked\<close>; \<open>extractDetectionStrategies\<close> and
  \<open>extractAnalytics\<close> test \<open>!obj.x_mitre_deprecated\<close> only. A detection strategy and an
  analytic that are revoked (and not deprecated) are kept, where the attack pattern with
  the same marks is dropped.
\<close>

theorem revoked_strategy_and_analytic_kept:
  "truthy_flag (StixObject.revoked
      (revoked_object ''x-mitre-detection-strategy'' ''x-mitre-detection-strategy--1'')) \<and>
   map fst (extractDetectionStrategies
              \<lparr>objects = [revoked_object ''x-mitre-detection-strategy''
                             ''x-mitre-detection-strategy--1'']\<rparr>)
     = [''x-mitre-detection-strategy--1''] \<and>
   map fst (extractAnalytics
              \<lparr>objects = [revoked_object ''x-mitre-analytic'' ''x-mitre-analytic--1'']\<rparr>)
     = [''x-mitre-analytic--1''] \<and>
   extractAttackPatterns
     \<lparr>objects = [revoked_object ''attack-pattern'' ''attack-pattern--1'']\<rparr> = []"
  by (simp add: extractDetectionStrategies_def extractAnalytics_def extractAttackPatterns_def
      revoked_object_def)

subsection \<open>The failure policy\<close>



text \<open>
  A document that parses to a falsy value gives the same empty taxonomy; one that parses
  to a value without \<open>objects\<close> makes the build raise.
\<close>

lemma parse_other_values:
  "local_file pe = Content raw \<Longrightarrow> JSON_parse pe raw = Some Falsy \<Longrightarrow>
   parseMatrix pe = Inr \<lparr>tactics = getEmptyTactics, availablePlatforms = []\<rparr>"
  "local_file pe = Content raw \<Longrightarrow> JSON_parse pe raw = Some NotABundle \<Longrightarrow>
   parseMatrix pe = Inl TypeError"
  by (simp_all add: parseMatrix_def loadStixData_def)

end
